theory Spec2Isabelle
  imports Complex_Main "HOL-Library.Word"
begin

unbundle bit_operations_syntax

section \<open>The TEMPer protocol layer of comm.c\<close>

text \<open>
  A shallow embedding of \<^verbatim>\<open>src/comm.c\<close>: the product table, session open
  (\<^verbatim>\<open>TemperCreate\<close>), device selection (\<^verbatim>\<open>TemperCreateFromDeviceNumber\<close>), the
  two command writers, the interrupt read and the decoder.

  The code talks to libusb-0.1, which is not part of the repository. Its functions are
  taken as a parameter: a record \<open>'w usb\<close> of functions over an arbitrary world state
  \<open>'w\<close> (the host stack and the devices behind it). A function of the code that
  calls libusb or prints becomes a function from the world to an outcome: its C result,
  the world after it, and the events it has caused, in order: each libusb call that
  acts on a device, and each line printed with \<^verbatim>\<open>printf\<close> or \<^verbatim>\<open>perror\<close>.
\<close>

subsection \<open>Data\<close>

type_synonym byte = "8 word"

text \<open>A \<^verbatim>\<open>usb_dev_handle *\<close> that is not NULL; NULL is \<open>None\<close>.\<close>

type_synonym usb_dev_handle = nat

text \<open>
  \<^verbatim>\<open>struct Product\<close>. The field \<^verbatim>\<open>id\<close> is \<open>id'\<close> here, since \<open>id\<close> is HOL's
  identity function.
\<close>

record Product =
  vendor :: "16 word"
  id' :: "16 word"
  name :: string

text \<open>
  \<^verbatim>\<open>struct usb_device\<close>, as far as the code reads it: the two ids of its descriptor.
  \<open>addr\<close> stands for the address of the struct, which is what tells two devices of
  the same model apart.
\<close>

record usb_device =
  addr :: nat
  idVendor :: "16 word"
  idProduct :: "16 word"

text \<open>
  \<^verbatim>\<open>struct Temper\<close>. The field \<^verbatim>\<open>product\<close> is \<open>product'\<close> here (\<open>product\<close> is a
  HOL constant). \<open>handle\<close> is never NULL in a session that \<^verbatim>\<open>TemperCreate\<close> returns.
\<close>

record Temper =
  device :: usb_device
  handle :: usb_dev_handle
  debug :: int
  timeout :: int
  product' :: Product

text \<open>
  \<^verbatim>\<open>struct TemperData\<close> is declared in comm.h; the code writes its fields
  \<^verbatim>\<open>tempA\<close> and \<^verbatim>\<open>tempB\<close>. The functions below work on every extension of this
  record, so further fields of the struct, if any, are carried along unchanged.
\<close>

record TemperData =
  tempA :: real
  tempB :: real

subsection \<open>The product table\<close>

definition ProductList :: "Product list" where
  "ProductList =
    [\<lparr>vendor = 0x0c45, id' = 0x7401, name = ''RDing TEMPer2V1.3''\<rparr>,
     \<lparr>vendor = 0x0c45, id' = 0x7402, name = ''RDing TEMPerHumiV1.1''\<rparr>]"

definition ProductCount :: nat where
  "ProductCount = length ProductList"

subsection \<open>Events and the state\<close>

text \<open>
  An argument of a \<^verbatim>\<open>printf\<close>: an integer, a string, \<^verbatim>\<open>strerror\<close> of an error
  number, or the indeterminate value of a byte read past the end of a buffer.
\<close>

datatype arg = I int | S string | Strerror int | Indeterminate

datatype usb_call =
    Open usb_device
  | Close usb_dev_handle
  | Detach usb_dev_handle int
  | SetConfiguration usb_dev_handle int
  | ClaimInterface usb_dev_handle int
  | ControlMsg usb_dev_handle int int int int "byte list" int int
  | InterruptRead usb_dev_handle int int int

datatype event =
    Printf string "arg list"
  | Perror string
  | Usb usb_call

text \<open>
  libusb-0.1, as the code uses it. Each function takes the world and returns its C
  result with the world after the call. \<^verbatim>\<open>usb_get_busses\<close> reads the library's global
  bus list: a list of busses, each a list of devices, in the host stack's order.
  \<^verbatim>\<open>usb_detach_kernel_driver_np\<close> returns its result together with the value of
  \<^verbatim>\<open>errno\<close> after the call, which the code reads next. \<^verbatim>\<open>usb_interrupt_read\<close>
  returns its result and the bytes the device delivered.
\<close>

record 'w usb =
  usb_get_busses :: "'w \<Rightarrow> usb_device list list"
  usb_open :: "usb_device \<Rightarrow> 'w \<Rightarrow> usb_dev_handle option \<times> 'w"
  usb_close :: "usb_dev_handle \<Rightarrow> 'w \<Rightarrow> int \<times> 'w"
  usb_detach_kernel_driver_np :: "usb_dev_handle \<Rightarrow> int \<Rightarrow> 'w \<Rightarrow> (int \<times> int) \<times> 'w"
  usb_set_configuration :: "usb_dev_handle \<Rightarrow> int \<Rightarrow> 'w \<Rightarrow> int \<times> 'w"
  usb_claim_interface :: "usb_dev_handle \<Rightarrow> int \<Rightarrow> 'w \<Rightarrow> int \<times> 'w"
  usb_control_msg ::
    "usb_dev_handle \<Rightarrow> int \<Rightarrow> int \<Rightarrow> int \<Rightarrow> int \<Rightarrow> byte list \<Rightarrow> int \<Rightarrow> int \<Rightarrow> 'w \<Rightarrow> int \<times> 'w"
  usb_interrupt_read :: "usb_dev_handle \<Rightarrow> int \<Rightarrow> int \<Rightarrow> int \<Rightarrow> 'w \<Rightarrow> (int \<times> byte list) \<times> 'w"

text \<open>
  The outcome of running a piece of the program on a world, and the type of such a
  piece.
\<close>

record ('a, 'w) outcome =
  result :: 'a
  world :: 'w
  events :: "event list"

type_synonym ('a, 'w) io = "'w \<Rightarrow> ('a, 'w) outcome"

definition io_return :: "'a \<Rightarrow> ('a, 'w) io" where
  "io_return x w = \<lparr>result = x, world = w, events = []\<rparr>"

text \<open>Sequencing: \<open>m\<close>, then \<open>k\<close> on its result, in the world \<open>m\<close> has left.\<close>

definition io_bind :: "('a, 'w) io \<Rightarrow> ('a \<Rightarrow> ('b, 'w) io) \<Rightarrow> ('b, 'w) io" where
  "io_bind m k w =
    (let r1 = m w; r2 = k (result r1) (world r1)
     in \<lparr>result = result r2, world = world r2, events = events r1 @ events r2\<rparr>)"

definition io_seq :: "('a, 'w) io \<Rightarrow> ('b, 'w) io \<Rightarrow> ('b, 'w) io" where
  "io_seq m k = io_bind m (\<lambda>_. k)"

text \<open>A statement under an \<^verbatim>\<open>if\<close> with no \<^verbatim>\<open>else\<close>.\<close>

definition io_when :: "bool \<Rightarrow> (unit, 'w) io \<Rightarrow> (unit, 'w) io" where
  "io_when b m = (if b then m else io_return ())"

definition printf :: "string \<Rightarrow> arg list \<Rightarrow> (unit, 'w) io" where
  "printf fmt args w = \<lparr>result = (), world = w, events = [Printf fmt args]\<rparr>"

definition perror :: "string \<Rightarrow> (unit, 'w) io" where
  "perror msg w = \<lparr>result = (), world = w, events = [Perror msg]\<rparr>"

text \<open>A libusb call: run it on the world and record it.\<close>

definition call :: "usb_call \<Rightarrow> ('w \<Rightarrow> 'a \<times> 'w) \<Rightarrow> ('a, 'w) io" where
  "call c f w = \<lparr>result = fst (f w), world = snd (f w), events = [Usb c]\<rparr>"

text \<open>
  Readings of a list of events: the libusb calls in it, the handles closed, the devices
  opened, and the events that are not \<^verbatim>\<open>printf\<close> output.
\<close>

definition usb_calls :: "event list \<Rightarrow> usb_call list" where
  "usb_calls es = concat (map (\<lambda>e. case e of Usb c \<Rightarrow> [c] | _ \<Rightarrow> []) es)"

definition closes :: "event list \<Rightarrow> usb_dev_handle list" where
  "closes es = concat (map (\<lambda>c. case c of Close h \<Rightarrow> [h] | _ \<Rightarrow> []) (usb_calls es))"

definition opens :: "event list \<Rightarrow> usb_device list" where
  "opens es = concat (map (\<lambda>c. case c of Open d \<Rightarrow> [d] | _ \<Rightarrow> []) (usb_calls es))"

definition is_printf :: "event \<Rightarrow> bool" where
  "is_printf e = (case e of Printf _ _ \<Rightarrow> True | _ \<Rightarrow> False)"

definition effects :: "event list \<Rightarrow> event list" where
  "effects es = filter (\<lambda>e. \<not> is_printf e) es"

subsection \<open>The decoder\<close>

text \<open>
  \<^verbatim>\<open>TemperByteToCelcius\<close>. \<^verbatim>\<open>(int8_t)high\<close> is promoted to a 32-bit \<^verbatim>\<open>int\<close>,
  shifted and or-ed with \<^verbatim>\<open>low\<close> there, and the result is converted to \<^verbatim>\<open>int16_t\<close>
  (modulo \<open>2 ^ 16\<close>, as gcc does). The scale \<^verbatim>\<open>125.0 / 32000.0\<close> is \<open>2\<^sup>-\<^sup>8\<close>,
  a power of two, and the word has 16 bits, so the floating-point product is exact and
  the result is the real number written here. The session \<open>t\<close> is not used: the
  calibration offset is compiled out (\<^verbatim>\<open>#if 0\<close>).
\<close>

definition TemperWord :: "byte \<Rightarrow> byte \<Rightarrow> 16 word" where
  "TemperWord high low =
     ucast (push_bit 8 (scast high :: 32 word) OR (ucast low :: 32 word))"

definition TemperByteToCelcius :: "Temper \<Rightarrow> byte \<Rightarrow> byte \<Rightarrow> real" where
  "TemperByteToCelcius t high low = real_of_int (sint (TemperWord high low)) * (125 / 32000)"

subsection \<open>Session open\<close>

text \<open>\<^verbatim>\<open>ENODATA\<close> of errno.h, on Linux.\<close>

definition ENODATA :: int where
  "ENODATA = 61"

text \<open>
  One detach attempt of \<^verbatim>\<open>TemperCreate\<close> (lines 101-118 for interface 0, lines
  119-135 for interface 1: the same statements twice). \<open>r\<close> is the result of the call
  with \<^verbatim>\<open>errno\<close>.
\<close>

definition detach_kernel_driver :: "'w usb \<Rightarrow> Temper \<Rightarrow> int \<Rightarrow> (unit, 'w) io" where
  "detach_kernel_driver U t interface =
    io_bind (call (Detach (handle t) interface)
               (usb_detach_kernel_driver_np U (handle t) interface)) (\<lambda>r.
      let ret = fst r; errno = snd r
      in if ret \<noteq> 0 then
           (if errno = ENODATA then
              io_when (debug t \<noteq> 0) (printf ''Device already detached\<newline>'' [])
            else
              io_when (debug t \<noteq> 0)
                (io_seq (printf ''Detach failed: %s[%d]\<newline>'' [Strerror errno, I errno])
                        (printf ''Continuing anyway\<newline>'' [])))
         else
           io_when (debug t \<noteq> 0) (printf ''detach successful\<newline>'' []))"

text \<open>The failure exit of lines 140-142: close the handle, free the session, return NULL.\<close>

definition close_and_fail :: "'w usb \<Rightarrow> Temper \<Rightarrow> (Temper option, 'w) io" where
  "close_and_fail U t =
    io_seq (call (Close (handle t)) (usb_close U (handle t))) (io_return None)"

text \<open>
  \<^verbatim>\<open>TemperCreate\<close>. The condition of line 137 is evaluated left to right and stops
  at the first operand that holds; the third operand tests the result of the claim of
  interface 1 for being non-zero, the first two test for being negative.
  \<^verbatim>\<open>calloc\<close> is taken to succeed.
\<close>

definition TemperCreate ::
  "'w usb \<Rightarrow> usb_device \<Rightarrow> int \<Rightarrow> int \<Rightarrow> Product \<Rightarrow> (Temper option, 'w) io" where
  "TemperCreate U dev tmo dbg p =
    io_seq
      (io_when (dbg \<noteq> 0)
         (printf ''Temper device %s (%04x:%04x)\<newline>''
            [S (name p), I (uint (vendor p)), I (uint (id' p))]))
   (io_bind (call (Open dev) (usb_open U dev)) (\<lambda>h.
      case h of
        None \<Rightarrow> io_return None
      | Some hnd \<Rightarrow>
         (let t = \<lparr>device = dev, handle = hnd, debug = dbg, timeout = tmo, product' = p\<rparr>
          in io_seq (io_when (debug t \<noteq> 0) (printf ''Trying to detach kernel driver\<newline>'' []))
            (io_seq (detach_kernel_driver U t 0)
            (io_seq (detach_kernel_driver U t 1)
            (io_bind (call (SetConfiguration (handle t) 1)
                        (usb_set_configuration U (handle t) 1)) (\<lambda>c.
               if c < 0 then close_and_fail U t
               else
                 io_bind (call (ClaimInterface (handle t) 0)
                            (usb_claim_interface U (handle t) 0)) (\<lambda>c0.
                   if c0 < 0 then close_and_fail U t
                   else
                     io_bind (call (ClaimInterface (handle t) 1)
                                (usb_claim_interface U (handle t) 1)) (\<lambda>c1.
                       if c1 \<noteq> 0 then close_and_fail U t
                       else io_return (Some t))))))))))"

subsection \<open>Device selection\<close>

text \<open>
  \<^verbatim>\<open>TemperCreateFromDeviceNumber\<close>: three nested loops with a \<^verbatim>\<open>return\<close> in the
  innermost. Each loop is a recursive function over what it runs through; its result is
  \<open>Inl r\<close> when the function has returned \<open>r\<close>, and \<open>Inr n\<close> when the loop has
  ended with the counter at \<open>n\<close>. The counter \<^verbatim>\<open>n\<close> is an \<^verbatim>\<open>int\<close>; it is an
  unbounded integer here, which is the same as long as fewer than \<open>2\<^sup>3\<^sup>1\<close> devices
  match.

  The innermost loop (lines 163-176) runs through the product table. It does not stop
  at a match: it goes on through the rest of the table.
\<close>

fun product_loop ::
  "'w usb \<Rightarrow> usb_device \<Rightarrow> int \<Rightarrow> int \<Rightarrow> int \<Rightarrow> Product list \<Rightarrow> int \<Rightarrow>
     (Temper option + int, 'w) io" where
  "product_loop U dev deviceNum tmo dbg [] n = io_return (Inr n)"
| "product_loop U dev deviceNum tmo dbg (p # ps) n =
    (if idVendor dev = vendor p \<and> idProduct dev = id' p then
       io_seq (io_when (dbg \<noteq> 0) (printf ''Found deviceNum %d\<newline>'' [I n]))
         (if n = deviceNum then
            io_bind (TemperCreate U dev tmo dbg p) (\<lambda>t. io_return (Inl t))
          else product_loop U dev deviceNum tmo dbg ps (n + 1))
     else product_loop U dev deviceNum tmo dbg ps n)"

fun device_loop ::
  "'w usb \<Rightarrow> int \<Rightarrow> int \<Rightarrow> int \<Rightarrow> usb_device list \<Rightarrow> int \<Rightarrow> (Temper option + int, 'w) io" where
  "device_loop U deviceNum tmo dbg [] n = io_return (Inr n)"
| "device_loop U deviceNum tmo dbg (dev # devs) n =
    io_seq
      (io_when (dbg \<noteq> 0)
         (printf ''Found device: %04x:%04x\<newline>''
            [I (uint (idVendor dev)), I (uint (idProduct dev))]))
   (io_bind (product_loop U dev deviceNum tmo dbg ProductList n) (\<lambda>r.
      case r of
        Inl t \<Rightarrow> io_return (Inl t)
      | Inr n' \<Rightarrow> device_loop U deviceNum tmo dbg devs n'))"

fun bus_loop ::
  "'w usb \<Rightarrow> int \<Rightarrow> int \<Rightarrow> int \<Rightarrow> usb_device list list \<Rightarrow> int \<Rightarrow> (Temper option + int, 'w) io" where
  "bus_loop U deviceNum tmo dbg [] n = io_return (Inr n)"
| "bus_loop U deviceNum tmo dbg (bus # busses) n =
    io_bind (device_loop U deviceNum tmo dbg bus n) (\<lambda>r.
      case r of
        Inl t \<Rightarrow> io_return (Inl t)
      | Inr n' \<Rightarrow> bus_loop U deviceNum tmo dbg busses n')"

definition TemperCreateFromDeviceNumber ::
  "'w usb \<Rightarrow> int \<Rightarrow> int \<Rightarrow> int \<Rightarrow> (Temper option, 'w) io" where
  "TemperCreateFromDeviceNumber U deviceNum tmo dbg w =
    io_bind (bus_loop U deviceNum tmo dbg (usb_get_busses U w) 0) (\<lambda>r.
      case r of
        Inl t \<Rightarrow> io_return t
      | Inr n \<Rightarrow> io_return None) w"

subsection \<open>Commands\<close>

text \<open>
  The two command writers. The arguments are \<^verbatim>\<open>int\<close>s; storing one into the
  \<^verbatim>\<open>unsigned char\<close> buffer keeps its low 8 bits. \<^verbatim>\<open>sizeof(buf)\<close> is the length
  of the buffer, \<open>8 + 8 * 8\<close>. The result of \<^verbatim>\<open>usb_control_msg\<close>, an \<^verbatim>\<open>int\<close>,
  is compared with it as a \<^verbatim>\<open>size_t\<close>: the two differ exactly when the result is
  not 72, a negative result included.
\<close>

definition TemperSendCommand8 ::
  "'w usb \<Rightarrow> Temper \<Rightarrow> int \<Rightarrow> int \<Rightarrow> int \<Rightarrow> int \<Rightarrow> int \<Rightarrow> int \<Rightarrow> int \<Rightarrow> int \<Rightarrow> (int, 'w) io" where
  "TemperSendCommand8 U t a b c d e f g h =
    (let buf0 = replicate (8 + 8 * 8) (0 :: byte);
         buf = buf0[0 := word_of_int a, 1 := word_of_int b, 2 := word_of_int c,
                    3 := word_of_int d, 4 := word_of_int e, 5 := word_of_int f,
                    6 := word_of_int g, 7 := word_of_int h]
     in io_seq
          (io_when (debug t \<noteq> 0)
             (printf ''sending bytes %02x, %02x, %02x, %02x, %02x, %02x, %02x, %02x (buffer len = %d)\<newline>''
                [I a, I b, I c, I d, I e, I f, I g, I h, I (int (length buf))]))
       (io_bind
          (call (ControlMsg (handle t) 0x21 9 0x200 0x01 buf (int (length buf)) (timeout t))
             (usb_control_msg U (handle t) 0x21 9 0x200 0x01 buf (int (length buf)) (timeout t)))
          (\<lambda>ret.
             if ret \<noteq> int (length buf) then
               io_seq (perror ''usb_control_msg failed'') (io_return (- 1))
             else io_return 0)))"

definition TemperSendCommand2 :: "'w usb \<Rightarrow> Temper \<Rightarrow> int \<Rightarrow> int \<Rightarrow> (int, 'w) io" where
  "TemperSendCommand2 U t a b =
    (let buf0 = replicate (8 + 8 * 8) (0 :: byte);
         buf = buf0[0 := word_of_int a, 1 := word_of_int b]
     in io_seq
          (io_when (debug t \<noteq> 0)
             (printf ''sending bytes %02x, %02x (buffer len = %d)\<newline>''
                [I a, I b, I (int (length buf))]))
       (io_bind
          (call (ControlMsg (handle t) 0x21 9 0x201 0x00 buf (int (length buf)) (timeout t))
             (usb_control_msg U (handle t) 0x21 9 0x201 0x00 buf (int (length buf)) (timeout t)))
          (\<lambda>ret.
             if ret \<noteq> int (length buf) then
               io_seq (perror ''usb_control_msg failed'') (io_return (- 1))
             else io_return 0)))"

subsection \<open>The interrupt read\<close>

text \<open>
  What \<^verbatim>\<open>usb_interrupt_read\<close> leaves in the caller's buffer: the delivered bytes at
  the front, the buffer's old contents behind them. The length of the buffer does not
  change.
\<close>

definition store :: "byte list \<Rightarrow> byte list \<Rightarrow> byte list" where
  "store buf bytes = take (length buf) (bytes @ drop (length bytes) buf)"

text \<open>An argument \<^verbatim>\<open>buf[i]\<close> of a \<^verbatim>\<open>printf\<close>.\<close>

definition byte_arg :: "byte list \<Rightarrow> int \<Rightarrow> arg" where
  "byte_arg buf i =
    (if 0 \<le> i \<and> nat i < length buf then I (uint (buf ! nat i)) else Indeterminate)"

text \<open>The dump loop of lines 259-262, from \<open>i\<close> on.\<close>

function dump_loop :: "byte list \<Rightarrow> int \<Rightarrow> int \<Rightarrow> (unit, 'w) io" where
  "dump_loop buf ret i =
    (if i < ret then
       io_seq (printf ''%02x '' [byte_arg buf i])
      (io_seq (io_when ((i + 1) mod 8 = 0) (printf ''\<newline>'' []))
         (dump_loop buf ret (i + 1)))
     else io_return ())"
  by pat_completeness auto
termination
  by (relation "measure (\<lambda>(buf, ret, i). nat (ret - i))") auto

declare dump_loop.simps [simp del]

text \<open>
  \<^verbatim>\<open>TemperInterruptRead\<close>. The result is the count libusb returned and the buffer
  after the call. libusb writes at most \<^verbatim>\<open>len\<close> bytes.
\<close>

definition TemperInterruptRead ::
  "'w usb \<Rightarrow> Temper \<Rightarrow> byte list \<Rightarrow> nat \<Rightarrow> (int \<times> byte list, 'w) io" where
  "TemperInterruptRead U t buf len =
    io_seq (io_when (debug t \<noteq> 0) (printf ''interrupt read\<newline>'' []))
   (io_bind (call (InterruptRead (handle t) 0x82 (int len) (timeout t))
               (usb_interrupt_read U (handle t) 0x82 (int len) (timeout t))) (\<lambda>r.
      let ret = fst r; buf' = store buf (take len (snd r))
      in io_seq
           (io_when (debug t \<noteq> 0)
              (io_seq (printf ''receiving %d bytes\<newline>'' [I ret])
              (io_seq (dump_loop buf' ret 0)
                      (printf ''\<newline>'' []))))
           (io_return (ret, buf'))))"

text \<open>
  \<^verbatim>\<open>TemperGetData\<close>. Its buffer is an uninitialised local array of 8 bytes:
  \<open>stack\<close> gives the bytes that happen to be there. The result is the returned count
  and the caller's structure after the call.
\<close>

definition TemperGetData ::
  "'w usb \<Rightarrow> Temper \<Rightarrow> (nat \<Rightarrow> byte) \<Rightarrow> 'a TemperData_scheme \<Rightarrow>
     (int \<times> 'a TemperData_scheme, 'w) io" where
  "TemperGetData U t stack data =
    (let buf0 = [stack 0, stack 1, stack 2, stack 3, stack 4, stack 5, stack 6, stack 7]
     in io_bind (TemperInterruptRead U t buf0 8) (\<lambda>r.
          let ret = fst r; buf = snd r;
              data1 = data\<lparr>tempA := TemperByteToCelcius t (buf ! 2) (buf ! 3)\<rparr>;
              data2 = data1\<lparr>tempB := TemperByteToCelcius t (buf ! 4) (buf ! 5)\<rparr>
          in io_return (ret, data2)))"

subsection \<open>Notions the theorems are stated with\<close>

text \<open>
  The table lookup that the innermost loop of \<^verbatim>\<open>TemperCreateFromDeviceNumber\<close>
  performs with the condition of lines 164-165: the first entry of the table whose
  vendor and id are the given ones.
\<close>

definition lookup :: "16 word \<Rightarrow> 16 word \<Rightarrow> Product option" where
  "lookup v i = find (\<lambda>p. v = vendor p \<and> i = id' p) ProductList"

text \<open>
  The devices of a list that the table knows, each with its entry, in the order of the
  list; and the same for the whole enumeration, bus after bus.
\<close>

definition matches :: "usb_device list \<Rightarrow> (usb_device \<times> Product) list" where
  "matches devs =
    concat (map (\<lambda>d. case lookup (idVendor d) (idProduct d) of
                        None \<Rightarrow> []
                      | Some p \<Rightarrow> [(d, p)]) devs)"

definition enumeration_matches :: "'w usb \<Rightarrow> 'w \<Rightarrow> (usb_device \<times> Product) list" where
  "enumeration_matches U w = matches (concat (usb_get_busses U w))"

text \<open>
  What a caller can observe of an outcome when the \<^verbatim>\<open>printf\<close> output is left
  aside: the result, the world, the libusb calls and the \<^verbatim>\<open>perror\<close> lines.
\<close>

definition observable :: "('a, 'w) outcome \<Rightarrow> 'a \<times> 'w \<times> event list" where
  "observable r = (result r, world r, effects (events r))"

text \<open>
  libusb with a different outcome of every detach attempt: \<open>out\<close> gives the result
  and \<^verbatim>\<open>errno\<close>; what the attempt does to the world is left as it is.
\<close>

definition with_detach_outcome ::
  "(usb_dev_handle \<Rightarrow> int \<Rightarrow> 'w \<Rightarrow> int \<times> int) \<Rightarrow> 'w usb \<Rightarrow> 'w usb" where
  "with_detach_outcome out U =
    U\<lparr>usb_detach_kernel_driver_np :=
        \<lambda>h i w. (out h i w, snd (usb_detach_kernel_driver_np U h i w))\<rparr>"

subsection \<open>A simulated libusb\<close>

text \<open>
  A test double, used to run the functions on concrete inputs. Its world counts the
  calls made. A device at address 0 cannot be opened; every other device opens, with
  its address as the handle. No kernel driver is attached (the detach attempts fail
  with \<^verbatim>\<open>ENODATA\<close>); the configuration is set and interface 0 is claimed; the
  claim of interface 1 returns \<open>claim1\<close>; a control message accepts \<open>accepted\<close>
  bytes; an interrupt read returns \<open>rd\<close>.
\<close>

definition sim_usb :: "usb_device list list \<Rightarrow> int \<Rightarrow> int \<Rightarrow> int \<times> byte list \<Rightarrow> nat usb" where
  "sim_usb busses claim1 accepted rd =
    \<lparr>usb_get_busses = (\<lambda>w. busses),
     usb_open = (\<lambda>d w. (if addr d = 0 then None else Some (addr d), Suc w)),
     usb_close = (\<lambda>h w. (0, Suc w)),
     usb_detach_kernel_driver_np = (\<lambda>h i w. ((- 1, 61), Suc w)),
     usb_set_configuration = (\<lambda>h c w. (0, Suc w)),
     usb_claim_interface = (\<lambda>h i w. (if i = 1 then claim1 else 0, Suc w)),
     usb_control_msg = (\<lambda>h rt rq v ix buf size tmo w. (accepted, Suc w)),
     usb_interrupt_read = (\<lambda>h ep size tmo w. (rd, Suc w))\<rparr>"

definition temper2 :: "nat \<Rightarrow> usb_device" where
  "temper2 a = \<lparr>addr = a, idVendor = 0x0c45, idProduct = 0x7401\<rparr>"

definition temper_humi :: "nat \<Rightarrow> usb_device" where
  "temper_humi a = \<lparr>addr = a, idVendor = 0x0c45, idProduct = 0x7402\<rparr>"

definition other_device :: "nat \<Rightarrow> usb_device" where
  "other_device a = \<lparr>addr = a, idVendor = 0x1130, idProduct = 0x660c\<rparr>"

definition sim_session :: Temper where
  "sim_session =
    \<lparr>device = temper2 7, handle = 7, debug = 1, timeout = 1000, product' = ProductList ! 0\<rparr>"

text \<open>Stale bytes on the stack: \<open>00 00 00 00 ff 70 00 00\<close>.\<close>

definition stale :: "nat \<Rightarrow> byte" where
  "stale i = (if i = 4 then 0xFF else if i = 5 then 0x70 else 0)"

section \<open>Basic facts\<close>

subsection \<open>Running the combinators\<close>

lemma io_return_simps [simp]:
  "result (io_return x w) = x" "world (io_return x w) = w" "events (io_return x w) = []"
  by (simp_all add: io_return_def)

lemma io_bind_simps [simp]:
  "result (io_bind m k w) = result (k (result (m w)) (world (m w)))"
  "world (io_bind m k w) = world (k (result (m w)) (world (m w)))"
  "events (io_bind m k w) = events (m w) @ events (k (result (m w)) (world (m w)))"
  by (simp_all add: io_bind_def Let_def)

lemma io_seq_simps [simp]:
  "result (io_seq m k w) = result (k (world (m w)))"
  "world (io_seq m k w) = world (k (world (m w)))"
  "events (io_seq m k w) = events (m w) @ events (k (world (m w)))"
  by (simp_all add: io_seq_def)

lemma io_when_simps [simp]:
  "world (io_when b m w) = (if b then world (m w) else w)"
  "events (io_when b m w) = (if b then events (m w) else [])"
  by (simp_all add: io_when_def)

lemma printf_simps [simp]:
  "world (printf fmt as w) = w" "events (printf fmt as w) = [Printf fmt as]"
  by (simp_all add: printf_def)

lemma perror_simps [simp]:
  "world (perror m w) = w" "events (perror m w) = [Perror m]"
  by (simp_all add: perror_def)

lemma call_simps [simp]:
  "result (call c f w) = fst (f w)" "world (call c f w) = snd (f w)"
  "events (call c f w) = [Usb c]"
  by (simp_all add: call_def)

subsection \<open>Reading event lists\<close>

lemma effects_simps [simp]:
  "effects [] = []" "effects (es @ fs) = effects es @ effects fs"
  "effects (Printf fmt as # es) = effects es"
  "effects (Perror m # es) = Perror m # effects es"
  "effects (Usb c # es) = Usb c # effects es"
  by (simp_all add: effects_def is_printf_def)

lemma usb_calls_simps [simp]:
  "usb_calls [] = []" "usb_calls (es @ fs) = usb_calls es @ usb_calls fs"
  "usb_calls (Printf fmt as # es) = usb_calls es"
  "usb_calls (Perror m # es) = usb_calls es"
  "usb_calls (Usb c # es) = c # usb_calls es"
  by (simp_all add: usb_calls_def)

lemma usb_calls_effects [simp]: "usb_calls (effects es) = usb_calls es"
proof (induction es)
  case Nil
  show ?case by simp
next
  case (Cons e es)
  then show ?case by (cases e) simp_all
qed

lemma closes_simps [simp]:
  "closes [] = []" "closes (es @ fs) = closes es @ closes fs"
  "closes (Printf fmt as # es) = closes es"
  "closes (Perror m # es) = closes es"
  "closes (Usb (Close h) # es) = h # closes es"
  "closes (Usb (Open d) # es) = closes es"
  "closes (Usb (Detach h i) # es) = closes es"
  "closes (Usb (SetConfiguration h i) # es) = closes es"
  "closes (Usb (ClaimInterface h i) # es) = closes es"
  by (simp_all add: closes_def)

lemma opens_simps [simp]:
  "opens [] = []" "opens (es @ fs) = opens es @ opens fs"
  "opens (Printf fmt as # es) = opens es"
  "opens (Perror m # es) = opens es"
  "opens (Usb (Open d) # es) = d # opens es"
  "opens (Usb (Close h) # es) = opens es"
  "opens (Usb (Detach h i) # es) = opens es"
  "opens (Usb (SetConfiguration h i) # es) = opens es"
  "opens (Usb (ClaimInterface h i) # es) = opens es"
  by (simp_all add: opens_def)

lemma closes_effects [simp]: "closes (effects es) = closes es"
  by (simp add: closes_def)

lemma opens_effects [simp]: "opens (effects es) = opens es"
  by (simp add: opens_def)

subsection \<open>The decoder's word\<close>

lemma TemperWord_word_cat: "TemperWord h l = word_cat h l"
  unfolding TemperWord_def
  by (rule bit_word_eqI) (auto simp add: bit_simps dest: bit_imp_le_length)

lemma TemperWord_16: "TemperWord h l = push_bit 8 (scast h :: 16 word) OR ucast l"
  unfolding TemperWord_def
  by (rule bit_word_eqI) (auto simp add: bit_simps)

lemma uint_word_cat_bytes:
  "uint (word_cat h l :: 16 word) = uint (h :: byte) * 256 + uint (l :: byte)"
proof -
  have l: "0 \<le> uint l" "uint l < 256" using uint_lt2p [of l] by simp_all
  have h: "0 \<le> uint h" "uint h < 256" using uint_lt2p [of h] by simp_all
  have "uint (word_cat h l :: 16 word) = take_bit 16 (concat_bit 8 (uint l) (uint h))"
    by (simp add: word_cat_eq' uint_word_of_int_eq)
  also have "concat_bit 8 (uint l) (uint h) = uint l + 256 * uint h"
    using l by (simp add: concat_bit_eq take_bit_int_eq_self push_bit_eq_mult)
  also have "take_bit 16 (uint l + 256 * uint h) = uint l + 256 * uint h"
    using l h by (intro take_bit_int_eq_self) auto
  finally show ?thesis by simp
qed

lemma sint_TemperWord: "sint (TemperWord h l) = sint h * 256 + uint l"
proof -
  define W :: "16 word" where "W = word_cat h l"
  have b: "bit W 15 = bit h 7"
    by (simp add: W_def bit_word_cat_iff)
  have t: "take_bit 16 (uint W) = uint W"
    using uint_lt2p [of W] by (intro take_bit_int_eq_self) auto
  have "sint W = take_bit 16 (uint W) - 65536 * of_bool (bit (uint W) 15)"
    by (simp add: sint_uint signed_take_bit_eq_take_bit_minus)
  then have "sint W = uint W - 65536 * of_bool (bit h 7)"
    using b t by (simp add: bit_uint_iff)
  moreover have "take_bit 8 (uint h) = uint h"
    using uint_lt2p [of h] by (intro take_bit_int_eq_self) auto
  then have "sint h = uint h - 256 * of_bool (bit h 7)"
    by (simp add: sint_uint signed_take_bit_eq_take_bit_minus bit_uint_iff)
  ultimately show ?thesis
    by (simp add: TemperWord_word_cat uint_word_cat_bytes W_def)
qed

lemma TemperByteToCelcius_closed:
  "TemperByteToCelcius t h l = real_of_int (sint h * 256 + uint l) / 256"
  by (simp add: TemperByteToCelcius_def sint_TemperWord)

subsection \<open>The interrupt read\<close>

lemma dump_loop_quiet:
  "world (dump_loop buf ret i w) = w \<and> effects (events (dump_loop buf ret i w)) = []"
proof (induction buf ret i arbitrary: w rule: dump_loop.induct)
  case (1 buf ret i)
  show ?case
    by (subst (1 2) dump_loop.simps) (simp add: 1)
qed

lemma TemperInterruptRead_result:
  "result (TemperInterruptRead U t buf len w) =
     (fst (fst (usb_interrupt_read U (handle t) 0x82 (int len) (timeout t) w)),
      store buf (take len (snd (fst (usb_interrupt_read U (handle t) 0x82 (int len) (timeout t) w)))))"
  by (simp add: TemperInterruptRead_def Let_def)

lemma TemperInterruptRead_world:
  "world (TemperInterruptRead U t buf len w) =
     snd (usb_interrupt_read U (handle t) 0x82 (int len) (timeout t) w)"
  by (simp add: TemperInterruptRead_def Let_def dump_loop_quiet)

lemma TemperInterruptRead_effects:
  "effects (events (TemperInterruptRead U t buf len w)) =
     [Usb (InterruptRead (handle t) 0x82 (int len) (timeout t))]"
  by (simp add: TemperInterruptRead_def Let_def dump_loop_quiet)

lemma TemperGetData_result:
  "result (TemperGetData U t stack data w) =
    (fst (fst (usb_interrupt_read U (handle t) 0x82 8 (timeout t) w)),
     data\<lparr>tempA := TemperByteToCelcius t
              (store [stack 0, stack 1, stack 2, stack 3, stack 4, stack 5, stack 6, stack 7]
                 (take 8 (snd (fst (usb_interrupt_read U (handle t) 0x82 8 (timeout t) w)))) ! 2)
              (store [stack 0, stack 1, stack 2, stack 3, stack 4, stack 5, stack 6, stack 7]
                 (take 8 (snd (fst (usb_interrupt_read U (handle t) 0x82 8 (timeout t) w)))) ! 3),
          tempB := TemperByteToCelcius t
              (store [stack 0, stack 1, stack 2, stack 3, stack 4, stack 5, stack 6, stack 7]
                 (take 8 (snd (fst (usb_interrupt_read U (handle t) 0x82 8 (timeout t) w)))) ! 4)
              (store [stack 0, stack 1, stack 2, stack 3, stack 4, stack 5, stack 6, stack 7]
                 (take 8 (snd (fst (usb_interrupt_read U (handle t) 0x82 8 (timeout t) w)))) ! 5)\<rparr>)"
  by (simp add: TemperGetData_def Let_def TemperInterruptRead_result)

lemma store_full: "length bytes = length buf \<Longrightarrow> store buf (take (length buf) bytes) = bytes"
  by (simp add: store_def)

subsection \<open>Session open\<close>

lemma detach_world [simp]:
  "world (detach_kernel_driver U t i w) = snd (usb_detach_kernel_driver_np U (handle t) i w)"
  by (simp add: detach_kernel_driver_def Let_def)

lemma detach_effects [simp]:
  "effects (events (detach_kernel_driver U t i w)) = [Usb (Detach (handle t) i)]"
  by (simp add: detach_kernel_driver_def Let_def)

lemma detach_usb_calls [simp]:
  "usb_calls (events (detach_kernel_driver U t i w)) = [Detach (handle t) i]"
  by (simp add: detach_kernel_driver_def Let_def)

lemma detach_quiet:
  "debug t = 0 \<Longrightarrow> events (detach_kernel_driver U t i w) = [Usb (Detach (handle t) i)]"
  by (simp add: detach_kernel_driver_def Let_def)

lemma close_and_fail_simps [simp]:
  "result (close_and_fail U t w) = None"
  "world (close_and_fail U t w) = snd (usb_close U (handle t) w)"
  "events (close_and_fail U t w) = [Usb (Close (handle t))]"
  by (simp_all add: close_and_fail_def)

text \<open>The debug flag of \<^verbatim>\<open>TemperCreate\<close> only adds \<^verbatim>\<open>printf\<close> lines.\<close>

lemma TemperCreate_world_debug:
  "world (TemperCreate U dev tmo dbg p w) = world (TemperCreate U dev tmo 0 p w)"
  by (simp add: TemperCreate_def Let_def split: option.split)

lemma TemperCreate_result_debug:
  "result (TemperCreate U dev tmo dbg p w) =
     map_option (\<lambda>t. t\<lparr>debug := dbg\<rparr>) (result (TemperCreate U dev tmo 0 p w))"
  by (simp add: TemperCreate_def Let_def split: option.split)

lemma TemperCreate_effects_debug:
  "effects (events (TemperCreate U dev tmo dbg p w)) = events (TemperCreate U dev tmo 0 p w)"
  by (simp add: TemperCreate_def Let_def detach_quiet split: option.split)

text \<open>What a failed and a successful open leave in the list of libusb calls.\<close>

lemma TemperCreate_not_opened:
  "fst (usb_open U dev w) = None \<Longrightarrow>
     result (TemperCreate U dev tmo dbg p w) = None \<and>
     world (TemperCreate U dev tmo dbg p w) = snd (usb_open U dev w) \<and>
     usb_calls (events (TemperCreate U dev tmo dbg p w)) = [Open dev]"
  by (simp add: TemperCreate_def)

lemma TemperCreate_opened:
  "fst (usb_open U dev w) = Some h \<Longrightarrow>
     take 4 (usb_calls (events (TemperCreate U dev tmo dbg p w))) =
       [Open dev, Detach h 0, Detach h 1, SetConfiguration h 1] \<and>
     closes (events (TemperCreate U dev tmo dbg p w)) =
       (if result (TemperCreate U dev tmo dbg p w) = None then [h] else []) \<and>
     (result (TemperCreate U dev tmo dbg p w) = None \<longrightarrow>
        last (usb_calls (events (TemperCreate U dev tmo dbg p w))) = Close h) \<and>
     result (TemperCreate U dev tmo dbg p w) \<in>
       {None, Some \<lparr>device = dev, handle = h, debug = dbg, timeout = tmo, product' = p\<rparr>}"
  by (simp add: TemperCreate_def Let_def closes_def)

text \<open>
  The steps after a successful open, each in the world the step before has left: which
  of them fails decides the result, the world and the libusb calls.
\<close>

lemma TemperCreate_steps:
  "fst (usb_open U dev w) = Some h \<Longrightarrow>
     (let w3 = snd (usb_detach_kernel_driver_np U h 1
                 (snd (usb_detach_kernel_driver_np U h 0 (snd (usb_open U dev w)))));
          c = fst (usb_set_configuration U h 1 w3);
          w4 = snd (usb_set_configuration U h 1 w3);
          c0 = fst (usb_claim_interface U h 0 w4);
          w5 = snd (usb_claim_interface U h 0 w4);
          c1 = fst (usb_claim_interface U h 1 w5);
          w6 = snd (usb_claim_interface U h 1 w5)
      in (result (TemperCreate U dev tmo dbg p w) = None) = (c < 0 \<or> c0 < 0 \<or> c1 \<noteq> 0) \<and>
         (c < 0 \<longrightarrow>
            world (TemperCreate U dev tmo dbg p w) = snd (usb_close U h w4) \<and>
            usb_calls (events (TemperCreate U dev tmo dbg p w)) =
              [Open dev, Detach h 0, Detach h 1, SetConfiguration h 1, Close h]) \<and>
         (0 \<le> c \<and> c0 < 0 \<longrightarrow>
            world (TemperCreate U dev tmo dbg p w) = snd (usb_close U h w5) \<and>
            usb_calls (events (TemperCreate U dev tmo dbg p w)) =
              [Open dev, Detach h 0, Detach h 1, SetConfiguration h 1,
               ClaimInterface h 0, Close h]) \<and>
         (0 \<le> c \<and> 0 \<le> c0 \<and> c1 \<noteq> 0 \<longrightarrow>
            world (TemperCreate U dev tmo dbg p w) = snd (usb_close U h w6) \<and>
            usb_calls (events (TemperCreate U dev tmo dbg p w)) =
              [Open dev, Detach h 0, Detach h 1, SetConfiguration h 1,
               ClaimInterface h 0, ClaimInterface h 1, Close h]) \<and>
         (0 \<le> c \<and> 0 \<le> c0 \<and> c1 = 0 \<longrightarrow>
            result (TemperCreate U dev tmo dbg p w) =
              Some \<lparr>device = dev, handle = h, debug = dbg, timeout = tmo, product' = p\<rparr> \<and>
            world (TemperCreate U dev tmo dbg p w) = w6 \<and>
            usb_calls (events (TemperCreate U dev tmo dbg p w)) =
              [Open dev, Detach h 0, Detach h 1, SetConfiguration h 1,
               ClaimInterface h 0, ClaimInterface h 1]))"
  by (simp add: TemperCreate_def Let_def)

lemma TemperCreate_opens: "opens (events (TemperCreate U dev tmo dbg p w)) = [dev]"
  by (simp add: TemperCreate_def Let_def opens_def split: option.split)

text \<open>\<^verbatim>\<open>TemperCreate\<close> reads the detach outcome for its \<^verbatim>\<open>printf\<close> lines only.\<close>

lemma detach_outcome_world [simp]:
  "world (detach_kernel_driver (with_detach_outcome out U) t i w) =
     world (detach_kernel_driver U t i w)"
  by (simp add: with_detach_outcome_def)

lemma TemperCreate_detach_outcome:
  "result (TemperCreate (with_detach_outcome out U) dev tmo dbg p w) =
     result (TemperCreate U dev tmo dbg p w) \<and>
   world (TemperCreate (with_detach_outcome out U) dev tmo dbg p w) =
     world (TemperCreate U dev tmo dbg p w) \<and>
   effects (events (TemperCreate (with_detach_outcome out U) dev tmo dbg p w)) =
     effects (events (TemperCreate U dev tmo dbg p w))"
proof -
  have f [simp]:
    "usb_open (with_detach_outcome out U) = usb_open U"
    "usb_close (with_detach_outcome out U) = usb_close U"
    "usb_set_configuration (with_detach_outcome out U) = usb_set_configuration U"
    "usb_claim_interface (with_detach_outcome out U) = usb_claim_interface U"
    by (simp_all add: with_detach_outcome_def)
  have w [simp]: "\<And>t i w. snd (usb_detach_kernel_driver_np (with_detach_outcome out U) t i w) =
      snd (usb_detach_kernel_driver_np U t i w)"
    by (simp add: with_detach_outcome_def)
  show ?thesis
    by (simp add: TemperCreate_def Let_def split: option.split)
qed

subsection \<open>Commands\<close>

lemma frame8:
  "(replicate (8 + 8 * 8) (0 :: byte))
     [0 := a, 1 := b, 2 := c, 3 := d, 4 := e, 5 := f, 6 := g, 7 := h] =
   [a, b, c, d, e, f, g, h] @ replicate 64 0"
  by (simp add: numeral_eq_Suc)

lemma frame2:
  "(replicate (8 + 8 * 8) (0 :: byte)) [0 := a, 1 := b] = [a, b] @ replicate 70 0"
  by (simp add: numeral_eq_Suc)

subsection \<open>Device selection\<close>

lemma lookup_cases:
  "lookup v i =
    (if v = 0x0c45 \<and> i = 0x7401 then
       Some \<lparr>vendor = 0x0c45, id' = 0x7401, name = ''RDing TEMPer2V1.3''\<rparr>
     else if v = 0x0c45 \<and> i = 0x7402 then
       Some \<lparr>vendor = 0x0c45, id' = 0x7402, name = ''RDing TEMPerHumiV1.1''\<rparr>
     else None)"
  by (simp add: lookup_def ProductList_def)

text \<open>
  The innermost loop over the whole table: a device matches at most one entry, so the
  loop either ends with the counter unchanged, or prints, and then returns the session
  or ends with the counter one higher.
\<close>

lemma product_loop_table:
  "product_loop U dev k tmo dbg ProductList n w =
    (case lookup (idVendor dev) (idProduct dev) of
       None \<Rightarrow> io_return (Inr n) w
     | Some p \<Rightarrow>
         io_seq (io_when (dbg \<noteq> 0) (printf ''Found deviceNum %d\<newline>'' [I n]))
           (if n = k then io_bind (TemperCreate U dev tmo dbg p) (\<lambda>t. io_return (Inl t))
            else io_return (Inr (n + 1))) w)"
  by (simp add: lookup_cases) (simp add: ProductList_def)

lemma matches_simps [simp]:
  "matches [] = []"
  "matches (d # ds) =
     (case lookup (idVendor d) (idProduct d) of None \<Rightarrow> [] | Some p \<Rightarrow> [(d, p)]) @ matches ds"
  "matches (ds @ ds') = matches ds @ matches ds'"
  by (simp_all add: matches_def)

lemma device_loop_run:
  "result (device_loop U k tmo dbg devs n w) =
     (if n \<le> k \<and> k < n + int (length (matches devs)) then
        Inl (result (TemperCreate U (fst (matches devs ! nat (k - n))) tmo dbg
                       (snd (matches devs ! nat (k - n))) w))
      else Inr (n + int (length (matches devs)))) \<and>
   world (device_loop U k tmo dbg devs n w) =
     (if n \<le> k \<and> k < n + int (length (matches devs)) then
        world (TemperCreate U (fst (matches devs ! nat (k - n))) tmo dbg
                 (snd (matches devs ! nat (k - n))) w)
      else w) \<and>
   effects (events (device_loop U k tmo dbg devs n w)) =
     (if n \<le> k \<and> k < n + int (length (matches devs)) then
        effects (events (TemperCreate U (fst (matches devs ! nat (k - n))) tmo dbg
                           (snd (matches devs ! nat (k - n))) w))
      else [])"
proof (induction devs arbitrary: n)
  case Nil
  show ?case by auto
next
  case (Cons dev devs)
  show ?case
  proof (cases "lookup (idVendor dev) (idProduct dev)")
    case None
    then show ?thesis
      using Cons [of n] by (auto simp add: product_loop_table)
  next
    case (Some p)
    show ?thesis
    proof (cases "n = k")
      case True
      then show ?thesis
        using Some by (auto simp add: product_loop_table)
    next
      case False
      have i: "n < k \<Longrightarrow> nat (k - n) = Suc (nat (k - (n + 1)))"
        by simp
      show ?thesis
        using Some False Cons [of "n + 1"] i
        by (auto simp add: product_loop_table)
    qed
  qed
qed

lemma bus_loop_run:
  "result (bus_loop U k tmo dbg busses n w) =
     (if n \<le> k \<and> k < n + int (length (matches (concat busses))) then
        Inl (result (TemperCreate U (fst (matches (concat busses) ! nat (k - n))) tmo dbg
                       (snd (matches (concat busses) ! nat (k - n))) w))
      else Inr (n + int (length (matches (concat busses))))) \<and>
   world (bus_loop U k tmo dbg busses n w) =
     (if n \<le> k \<and> k < n + int (length (matches (concat busses))) then
        world (TemperCreate U (fst (matches (concat busses) ! nat (k - n))) tmo dbg
                 (snd (matches (concat busses) ! nat (k - n))) w)
      else w) \<and>
   effects (events (bus_loop U k tmo dbg busses n w)) =
     (if n \<le> k \<and> k < n + int (length (matches (concat busses))) then
        effects (events (TemperCreate U (fst (matches (concat busses) ! nat (k - n))) tmo dbg
                           (snd (matches (concat busses) ! nat (k - n))) w))
      else [])"
proof (induction busses arbitrary: n)
  case Nil
  show ?case by auto
next
  case (Cons bus busses)
  let ?m = "int (length (matches bus))"
  show ?case
  proof (cases "n \<le> k \<and> k < n + ?m")
    case True
    then have "nat (k - n) < length (matches bus)" by auto
    then show ?thesis
      using True device_loop_run [of U k tmo dbg bus n w]
      by (auto simp add: nth_append)
  next
    case False
    have i: "n + ?m \<le> k \<Longrightarrow>
        nat (k - n) - length (matches bus) = nat (k - (n + ?m)) \<and>
        \<not> nat (k - n) < length (matches bus)"
      by auto
    show ?thesis
      using False device_loop_run [of U k tmo dbg bus n w] Cons [of "n + ?m"] i
      by (auto simp add: nth_append add.assoc)
  qed
qed

lemma TemperCreateFromDeviceNumber_run:
  "result (TemperCreateFromDeviceNumber U k tmo dbg w) =
     (if 0 \<le> k \<and> k < int (length (enumeration_matches U w)) then
        result (TemperCreate U (fst (enumeration_matches U w ! nat k)) tmo dbg
                  (snd (enumeration_matches U w ! nat k)) w)
      else None) \<and>
   world (TemperCreateFromDeviceNumber U k tmo dbg w) =
     (if 0 \<le> k \<and> k < int (length (enumeration_matches U w)) then
        world (TemperCreate U (fst (enumeration_matches U w ! nat k)) tmo dbg
                 (snd (enumeration_matches U w ! nat k)) w)
      else w) \<and>
   effects (events (TemperCreateFromDeviceNumber U k tmo dbg w)) =
     (if 0 \<le> k \<and> k < int (length (enumeration_matches U w)) then
        effects (events (TemperCreate U (fst (enumeration_matches U w ! nat k)) tmo dbg
                           (snd (enumeration_matches U w ! nat k)) w))
      else [])"
  using bus_loop_run [of U k tmo dbg "usb_get_busses U w" 0 w]
  by (simp add: TemperCreateFromDeviceNumber_def enumeration_matches_def)

section \<open>The claims\<close>

subsection \<open>C1: the decoder\<close>

text \<open>
  C1. For every byte pair \<open>(high, low)\<close> the decoder forms the 16-bit signed word
  \<open>(sign_extend(high) << 8) | low\<close>, whose value is \<open>256 * sint high + uint low\<close>,
  and returns that word times \<open>125 / 32000\<close>. \<^verbatim>\<open>TemperGetData\<close> applies the decoder
  to the bytes at offsets 2, 3 of its buffer for \<open>tempA\<close> and 4, 5 for \<open>tempB\<close>, and
  when the device has delivered a full response of 8 bytes these are bytes 2 to 5 of
  the response. Decoding \<open>(0x00, 0x00)\<close> gives 0, \<open>(0x01, 0x90)\<close> gives 1.5625, and
  \<open>(0xFF, 0x70)\<close> is the word -144 and gives -0.5625.
\<close>

theorem decoder_word_and_scale:
  "TemperWord high low = push_bit 8 (scast high :: 16 word) OR ucast low \<and>
   sint (TemperWord high low) = sint high * 256 + uint low \<and>
   TemperByteToCelcius t high low =
     real_of_int (sint (push_bit 8 (scast high :: 16 word) OR ucast low)) * 125 / 32000 \<and>
   (length (snd (fst (usb_interrupt_read U (handle t) 0x82 8 (timeout t) w))) = 8 \<longrightarrow>
      tempA (snd (result (TemperGetData U t stack data w))) =
        TemperByteToCelcius t
          (snd (fst (usb_interrupt_read U (handle t) 0x82 8 (timeout t) w)) ! 2)
          (snd (fst (usb_interrupt_read U (handle t) 0x82 8 (timeout t) w)) ! 3) \<and>
      tempB (snd (result (TemperGetData U t stack data w))) =
        TemperByteToCelcius t
          (snd (fst (usb_interrupt_read U (handle t) 0x82 8 (timeout t) w)) ! 4)
          (snd (fst (usb_interrupt_read U (handle t) 0x82 8 (timeout t) w)) ! 5)) \<and>
   TemperByteToCelcius t 0x00 0x00 = 0 \<and>
   TemperByteToCelcius t 0x01 0x90 = 1.5625 \<and>
   sint (TemperWord 0xFF 0x70) = - 144 \<and>
   TemperByteToCelcius t 0xFF 0x70 = - 0.5625"
proof -
  have scale: "TemperByteToCelcius t high low =
      real_of_int (sint (push_bit 8 (scast high :: 16 word) OR ucast low)) * 125 / 32000"
    by (simp add: TemperByteToCelcius_def flip: TemperWord_16)
  have full: "tempA (snd (result (TemperGetData U t stack data w))) =
        TemperByteToCelcius t (bs ! 2) (bs ! 3) \<and>
      tempB (snd (result (TemperGetData U t stack data w))) =
        TemperByteToCelcius t (bs ! 4) (bs ! 5)"
    if "bs = snd (fst (usb_interrupt_read U (handle t) 0x82 8 (timeout t) w))"
      and "length bs = 8" for bs
    using that store_full [of bs "[stack 0, stack 1, stack 2, stack 3, stack 4, stack 5, stack 6, stack 7]"]
    by (simp add: TemperGetData_result)
  show ?thesis
    using full by (simp add: TemperWord_16 [symmetric] sint_TemperWord scale TemperByteToCelcius_closed)
qed

text \<open>
  The end-to-end scenario: the device answers \<open>80 80 01 90 ff 70 03 04\<close>, and the
  reading is 1.5625 and -0.5625.
\<close>

theorem decoder_word_and_scale_witness:
  "length (snd (fst (usb_interrupt_read
       (sim_usb [] 0 72 (8, [0x80, 0x80, 0x01, 0x90, 0xFF, 0x70, 0x03, 0x04]))
       (handle sim_session) 0x82 8 (timeout sim_session) 0))) = 8 \<and>
   tempA (snd (result (TemperGetData
       (sim_usb [] 0 72 (8, [0x80, 0x80, 0x01, 0x90, 0xFF, 0x70, 0x03, 0x04]))
       sim_session stale \<lparr>tempA = 0, tempB = 0\<rparr> 0))) = 1.5625 \<and>
   tempB (snd (result (TemperGetData
       (sim_usb [] 0 72 (8, [0x80, 0x80, 0x01, 0x90, 0xFF, 0x70, 0x03, 0x04]))
       sim_session stale \<lparr>tempA = 0, tempB = 0\<rparr> 0))) = - 0.5625"
  using decoder_word_and_scale
    [of _ _ sim_session "sim_usb [] 0 72 (8, [0x80, 0x80, 0x01, 0x90, 0xFF, 0x70, 0x03, 0x04])"
       0 stale "\<lparr>tempA = 0, tempB = 0\<rparr>"]
  by (simp add: sim_usb_def)

subsection \<open>C9: the output structure is written on every poll\<close>

text \<open>
  C9. \<^verbatim>\<open>TemperGetData\<close> returns the count of the interrupt read, whatever it is,
  and writes both \<open>tempA\<close> and \<open>tempB\<close> on every call: they are decoded from bytes
  2, 3 and 4, 5 of the buffer as the read has left it, and the values the structure
  held before play no part. When the read has delivered nothing, the buffer is the
  uninitialised stack array, so the fields are decoded from the bytes that happen to be
  there.
\<close>

theorem TemperGetData_always_writes:
  "fst (result (TemperGetData U t stack data w)) =
     fst (fst (usb_interrupt_read U (handle t) 0x82 8 (timeout t) w)) \<and>
   tempA (snd (result (TemperGetData U t stack data w))) =
     TemperByteToCelcius t
       (snd (result (TemperInterruptRead U t
          [stack 0, stack 1, stack 2, stack 3, stack 4, stack 5, stack 6, stack 7] 8 w)) ! 2)
       (snd (result (TemperInterruptRead U t
          [stack 0, stack 1, stack 2, stack 3, stack 4, stack 5, stack 6, stack 7] 8 w)) ! 3) \<and>
   tempB (snd (result (TemperGetData U t stack data w))) =
     TemperByteToCelcius t
       (snd (result (TemperInterruptRead U t
          [stack 0, stack 1, stack 2, stack 3, stack 4, stack 5, stack 6, stack 7] 8 w)) ! 4)
       (snd (result (TemperInterruptRead U t
          [stack 0, stack 1, stack 2, stack 3, stack 4, stack 5, stack 6, stack 7] 8 w)) ! 5) \<and>
   result (TemperGetData U t stack (data\<lparr>tempA := a, tempB := b\<rparr>) w) =
     result (TemperGetData U t stack data w) \<and>
   (snd (fst (usb_interrupt_read U (handle t) 0x82 8 (timeout t) w)) = [] \<longrightarrow>
      tempA (snd (result (TemperGetData U t stack data w))) =
        TemperByteToCelcius t (stack 2) (stack 3) \<and>
      tempB (snd (result (TemperGetData U t stack data w))) =
        TemperByteToCelcius t (stack 4) (stack 5))"
  by (simp add: TemperGetData_result TemperInterruptRead_result store_def)

text \<open>
  A read that times out (\<open>-110\<close>, nothing delivered) over the stale bytes
  \<open>00 00 00 00 ff 70 00 00\<close>: the count \<open>-110\<close> is returned, and the structure, which
  held 20 and 21, now holds 0 and -0.5625.
\<close>

theorem TemperGetData_always_writes_witness:
  "snd (fst (usb_interrupt_read (sim_usb [] 0 72 (- 110, []))
       (handle sim_session) 0x82 8 (timeout sim_session) 0)) = [] \<and>
   result (TemperGetData (sim_usb [] 0 72 (- 110, [])) sim_session stale
       \<lparr>tempA = 20, tempB = 21\<rparr> 0) = (- 110, \<lparr>tempA = 0, tempB = - 0.5625\<rparr>)"
proof -
  have r: "snd (fst (usb_interrupt_read (sim_usb [] 0 72 (- 110, []))
       (handle sim_session) 0x82 8 (timeout sim_session) 0)) = []"
    by (simp add: sim_usb_def)
  show ?thesis
    using r TemperGetData_always_writes
      [of "sim_usb [] 0 72 (- 110, [])" sim_session stale "\<lparr>tempA = 20, tempB = 21\<rparr>" 0 20 21]
    by (simp add: prod_eq_iff sim_usb_def stale_def TemperByteToCelcius_closed)
qed

subsection \<open>C4: a short read\<close>

text \<open>
  C4, as stated, does not hold: a short response is padded with the stale bytes of the
  buffer and decoded. Here the read returns 4 bytes \<open>80 80 01 90\<close>; \<^verbatim>\<open>TemperGetData\<close>
  returns the count 4 and a structure with \<open>tempA = 1.5625\<close> from the response and
  \<open>tempB = -0.5625\<close> from the stale bytes \<open>ff 70\<close>.
\<close>

theorem short_read_is_decoded:
  "result (TemperGetData (sim_usb [] 0 72 (4, [0x80, 0x80, 0x01, 0x90])) sim_session stale
       \<lparr>tempA = 0, tempB = 0\<rparr> 0) = (4, \<lparr>tempA = 1.5625, tempB = - 0.5625\<rparr>)"
  by (simp add: TemperGetData_result sim_usb_def stale_def store_def TemperByteToCelcius_closed)

text \<open>
  C4, amended. \<^verbatim>\<open>TemperGetData\<close> makes one interrupt read of 8 bytes from endpoint
  \<open>0x82\<close> with the session's handle and timeout, no other libusb call and no
  \<^verbatim>\<open>perror\<close>, and returns the count of that read as it is. So its result is 8
  exactly when the read returned 8, and a failed or short read reaches the caller as a
  count other than 8. The reading is written whatever the count: the fields are
  decoded from the buffer in which the delivered bytes stand in front of the bytes the
  buffer held before.
\<close>

theorem TemperGetData_returns_count:
  "effects (events (TemperGetData U t stack data w)) =
     [Usb (InterruptRead (handle t) 0x82 8 (timeout t))] \<and>
   world (TemperGetData U t stack data w) =
     snd (usb_interrupt_read U (handle t) 0x82 8 (timeout t) w) \<and>
   fst (result (TemperGetData U t stack data w)) =
     fst (fst (usb_interrupt_read U (handle t) 0x82 8 (timeout t) w)) \<and>
   (fst (result (TemperGetData U t stack data w)) = 8) =
     (fst (fst (usb_interrupt_read U (handle t) 0x82 8 (timeout t) w)) = 8) \<and>
   snd (result (TemperGetData U t stack data w)) =
     data\<lparr>tempA := TemperByteToCelcius t
              (store [stack 0, stack 1, stack 2, stack 3, stack 4, stack 5, stack 6, stack 7]
                 (take 8 (snd (fst (usb_interrupt_read U (handle t) 0x82 8 (timeout t) w)))) ! 2)
              (store [stack 0, stack 1, stack 2, stack 3, stack 4, stack 5, stack 6, stack 7]
                 (take 8 (snd (fst (usb_interrupt_read U (handle t) 0x82 8 (timeout t) w)))) ! 3),
          tempB := TemperByteToCelcius t
              (store [stack 0, stack 1, stack 2, stack 3, stack 4, stack 5, stack 6, stack 7]
                 (take 8 (snd (fst (usb_interrupt_read U (handle t) 0x82 8 (timeout t) w)))) ! 4)
              (store [stack 0, stack 1, stack 2, stack 3, stack 4, stack 5, stack 6, stack 7]
                 (take 8 (snd (fst (usb_interrupt_read U (handle t) 0x82 8 (timeout t) w)))) ! 5)\<rparr>"
proof -
  have e: "effects (events (TemperGetData U t stack data w)) =
      [Usb (InterruptRead (handle t) 0x82 8 (timeout t))]"
    using TemperInterruptRead_effects [of U t _ 8 w]
    by (simp add: TemperGetData_def Let_def)
  have v: "world (TemperGetData U t stack data w) =
      snd (usb_interrupt_read U (handle t) 0x82 8 (timeout t) w)"
    using TemperInterruptRead_world [of U t _ 8 w]
    by (simp add: TemperGetData_def Let_def)
  show ?thesis
    using e v by (simp add: TemperGetData_result)
qed

subsection \<open>C3: the command frames\<close>

text \<open>
  C3. \<^verbatim>\<open>TemperSendCommand8\<close> runs \<^verbatim>\<open>usb_control_msg\<close> exactly once: the world it
  leaves is the world after one control message with request type \<open>0x21\<close>, request
  9, value \<open>0x200\<close>, index 1, size 72 and the session's timeout, whose 72 bytes are the
  eight arguments (each as a byte) followed by 64 zeros; that message is its only
  libusb call. \<^verbatim>\<open>TemperSendCommand2\<close> does the same with value \<open>0x201\<close>, index 0
  and a frame of its two arguments followed by 70 zeros. Each returns 0 if libusb
  reports 72 bytes; for every other count it returns -1, after a \<^verbatim>\<open>perror\<close> line and
  with no second message.
\<close>

theorem send_command_frames:
  "usb_calls (events (TemperSendCommand8 U t a b c d e f g h w)) =
     [ControlMsg (handle t) 0x21 9 0x200 0x01
        ([word_of_int a, word_of_int b, word_of_int c, word_of_int d,
          word_of_int e, word_of_int f, word_of_int g, word_of_int h] @ replicate 64 0)
        72 (timeout t)] \<and>
   result (TemperSendCommand8 U t a b c d e f g h w) =
     (if fst (usb_control_msg U (handle t) 0x21 9 0x200 0x01
                ([word_of_int a, word_of_int b, word_of_int c, word_of_int d,
                  word_of_int e, word_of_int f, word_of_int g, word_of_int h] @ replicate 64 0)
                72 (timeout t) w) = 72
      then 0 else - 1) \<and>
   world (TemperSendCommand8 U t a b c d e f g h w) =
     snd (usb_control_msg U (handle t) 0x21 9 0x200 0x01
            ([word_of_int a, word_of_int b, word_of_int c, word_of_int d,
              word_of_int e, word_of_int f, word_of_int g, word_of_int h] @ replicate 64 0)
            72 (timeout t) w) \<and>
   effects (events (TemperSendCommand8 U t a b c d e f g h w)) =
     Usb (ControlMsg (handle t) 0x21 9 0x200 0x01
            ([word_of_int a, word_of_int b, word_of_int c, word_of_int d,
              word_of_int e, word_of_int f, word_of_int g, word_of_int h] @ replicate 64 0)
            72 (timeout t)) #
     (if fst (usb_control_msg U (handle t) 0x21 9 0x200 0x01
                ([word_of_int a, word_of_int b, word_of_int c, word_of_int d,
                  word_of_int e, word_of_int f, word_of_int g, word_of_int h] @ replicate 64 0)
                72 (timeout t) w) = 72
      then [] else [Perror ''usb_control_msg failed'']) \<and>
   usb_calls (events (TemperSendCommand2 U t a b w)) =
     [ControlMsg (handle t) 0x21 9 0x201 0x00
        ([word_of_int a, word_of_int b] @ replicate 70 0) 72 (timeout t)] \<and>
   result (TemperSendCommand2 U t a b w) =
     (if fst (usb_control_msg U (handle t) 0x21 9 0x201 0x00
                ([word_of_int a, word_of_int b] @ replicate 70 0) 72 (timeout t) w) = 72
      then 0 else - 1) \<and>
   world (TemperSendCommand2 U t a b w) =
     snd (usb_control_msg U (handle t) 0x21 9 0x201 0x00
            ([word_of_int a, word_of_int b] @ replicate 70 0) 72 (timeout t) w) \<and>
   effects (events (TemperSendCommand2 U t a b w)) =
     Usb (ControlMsg (handle t) 0x21 9 0x201 0x00
            ([word_of_int a, word_of_int b] @ replicate 70 0) 72 (timeout t)) #
     (if fst (usb_control_msg U (handle t) 0x21 9 0x201 0x00
                ([word_of_int a, word_of_int b] @ replicate 70 0) 72 (timeout t) w) = 72
      then [] else [Perror ''usb_control_msg failed'']) \<and>
   length ([word_of_int a, word_of_int b, word_of_int c, word_of_int d,
            word_of_int e, word_of_int f, word_of_int g, word_of_int h :: byte]
           @ replicate 64 0) = 72 \<and>
   length ([word_of_int a, word_of_int b :: byte] @ replicate 70 0) = 72 \<and>
   word_of_int (uint x) = (x :: byte)"
proof -
  have 8: "usb_calls (events (TemperSendCommand8 U t a b c d e f g h w)) =
     [ControlMsg (handle t) 0x21 9 0x200 0x01
        ([word_of_int a, word_of_int b, word_of_int c, word_of_int d,
          word_of_int e, word_of_int f, word_of_int g, word_of_int h] @ replicate 64 0)
        72 (timeout t)]"
    unfolding TemperSendCommand8_def Let_def frame8 by simp
  have r8: "result (TemperSendCommand8 U t a b c d e f g h w) =
     (if fst (usb_control_msg U (handle t) 0x21 9 0x200 0x01
                ([word_of_int a, word_of_int b, word_of_int c, word_of_int d,
                  word_of_int e, word_of_int f, word_of_int g, word_of_int h] @ replicate 64 0)
                72 (timeout t) w) = 72
      then 0 else - 1)"
    unfolding TemperSendCommand8_def Let_def frame8 by simp
  have w8: "world (TemperSendCommand8 U t a b c d e f g h w) =
     snd (usb_control_msg U (handle t) 0x21 9 0x200 0x01
            ([word_of_int a, word_of_int b, word_of_int c, word_of_int d,
              word_of_int e, word_of_int f, word_of_int g, word_of_int h] @ replicate 64 0)
            72 (timeout t) w)"
    unfolding TemperSendCommand8_def Let_def frame8 by simp
  have e8: "effects (events (TemperSendCommand8 U t a b c d e f g h w)) =
     Usb (ControlMsg (handle t) 0x21 9 0x200 0x01
            ([word_of_int a, word_of_int b, word_of_int c, word_of_int d,
              word_of_int e, word_of_int f, word_of_int g, word_of_int h] @ replicate 64 0)
            72 (timeout t)) #
     (if fst (usb_control_msg U (handle t) 0x21 9 0x200 0x01
                ([word_of_int a, word_of_int b, word_of_int c, word_of_int d,
                  word_of_int e, word_of_int f, word_of_int g, word_of_int h] @ replicate 64 0)
                72 (timeout t) w) = 72
      then [] else [Perror ''usb_control_msg failed''])"
    unfolding TemperSendCommand8_def Let_def frame8 by simp
  have 2: "usb_calls (events (TemperSendCommand2 U t a b w)) =
     [ControlMsg (handle t) 0x21 9 0x201 0x00
        ([word_of_int a, word_of_int b] @ replicate 70 0) 72 (timeout t)]"
    unfolding TemperSendCommand2_def Let_def frame2 by simp
  have r2: "result (TemperSendCommand2 U t a b w) =
     (if fst (usb_control_msg U (handle t) 0x21 9 0x201 0x00
                ([word_of_int a, word_of_int b] @ replicate 70 0) 72 (timeout t) w) = 72
      then 0 else - 1)"
    unfolding TemperSendCommand2_def Let_def frame2 by simp
  have w2: "world (TemperSendCommand2 U t a b w) =
     snd (usb_control_msg U (handle t) 0x21 9 0x201 0x00
            ([word_of_int a, word_of_int b] @ replicate 70 0) 72 (timeout t) w)"
    unfolding TemperSendCommand2_def Let_def frame2 by simp
  have e2: "effects (events (TemperSendCommand2 U t a b w)) =
     Usb (ControlMsg (handle t) 0x21 9 0x201 0x00
            ([word_of_int a, word_of_int b] @ replicate 70 0) 72 (timeout t)) #
     (if fst (usb_control_msg U (handle t) 0x21 9 0x201 0x00
                ([word_of_int a, word_of_int b] @ replicate 70 0) 72 (timeout t) w) = 72
      then [] else [Perror ''usb_control_msg failed''])"
    unfolding TemperSendCommand2_def Let_def frame2 by simp
  show ?thesis
    unfolding 8 r8 w8 e8 2 r2 w2 e2 by simp
qed

text \<open>
  A partial write: libusb accepts 71 of the 72 bytes of the frame for \<open>01 80 33 01\<close>.
  The command fails after that one message (the simulated world has counted one call)
  and a \<^verbatim>\<open>perror\<close> line. With 72 bytes accepted the two-byte command succeeds, again
  with one call counted.
\<close>

theorem send_command_frames_witness:
  "result (TemperSendCommand8 (sim_usb [] 0 71 (8, [])) sim_session 1 0x80 0x33 1 0 0 0 0 0) = - 1 \<and>
   world (TemperSendCommand8 (sim_usb [] 0 71 (8, [])) sim_session 1 0x80 0x33 1 0 0 0 0 0) = 1 \<and>
   effects (events
     (TemperSendCommand8 (sim_usb [] 0 71 (8, [])) sim_session 1 0x80 0x33 1 0 0 0 0 0)) =
     [Usb (ControlMsg 7 0x21 9 0x200 1 ([1, 0x80, 0x33, 1, 0, 0, 0, 0] @ replicate 64 0) 72 1000),
      Perror ''usb_control_msg failed''] \<and>
   result (TemperSendCommand2 (sim_usb [] 0 72 (8, [])) sim_session 1 0x80 0) = 0 \<and>
   world (TemperSendCommand2 (sim_usb [] 0 72 (8, [])) sim_session 1 0x80 0) = 1 \<and>
   effects (events (TemperSendCommand2 (sim_usb [] 0 72 (8, [])) sim_session 1 0x80 0)) =
     [Usb (ControlMsg 7 0x21 9 0x201 0 ([1, 0x80] @ replicate 70 0) 72 1000)]"
  using send_command_frames [of "sim_usb [] 0 71 (8, [])" sim_session 1 "0x80" "0x33" 1 0 0 0 0 0]
    send_command_frames [of "sim_usb [] 0 72 (8, [])" sim_session 1 "0x80" 0 0 0 0 0 0 0]
  by (simp add: sim_usb_def sim_session_def)

subsection \<open>C7: the product table\<close>

text \<open>
  C7, as stated, does not hold: the names in the table are not the ones the claim
  gives.
\<close>

theorem registry_names_differ:
  "map_option name (lookup 0x0c45 0x7401) \<noteq> Some ''TEMPer2V1.3'' \<and>
   map_option name (lookup 0x0c45 0x7402) \<noteq> Some ''TEMperHumiV1.1''"
  by (simp add: lookup_cases)

text \<open>
  C7, amended. The table has exactly two entries: \<open>(0x0c45, 0x7401)\<close> with the name
  \<open>RDing TEMPer2V1.3\<close> and \<open>(0x0c45, 0x7402)\<close> with the name
  \<open>RDing TEMPerHumiV1.1\<close>. The lookup finds the entry of each of the two pairs and
  nothing for every other pair, \<open>(0x1130, 0x660c)\<close> among them, and no pair occurs
  twice in the table. The lookup is what the table scan of
  \<^verbatim>\<open>TemperCreateFromDeviceNumber\<close> does for a device: with no entry the counter stays,
  with an entry the session is opened with that entry if the counter is at the
  requested number, and the counter goes up by one otherwise.
\<close>

theorem registry_lookup:
  "lookup 0x0c45 0x7401 = Some \<lparr>vendor = 0x0c45, id' = 0x7401, name = ''RDing TEMPer2V1.3''\<rparr> \<and>
   lookup 0x0c45 0x7402 = Some \<lparr>vendor = 0x0c45, id' = 0x7402, name = ''RDing TEMPerHumiV1.1''\<rparr> \<and>
   (lookup v i = None) = (\<not> (v = 0x0c45 \<and> (i = 0x7401 \<or> i = 0x7402))) \<and>
   lookup 0x1130 0x660c = None \<and>
   map (\<lambda>p. (vendor p, id' p)) ProductList = [(0x0c45, 0x7401), (0x0c45, 0x7402)] \<and>
   distinct (map (\<lambda>p. (vendor p, id' p)) ProductList) \<and>
   ProductCount = 2 \<and>
   result (product_loop U dev k tmo dbg ProductList n w) =
     (case lookup (idVendor dev) (idProduct dev) of
        None \<Rightarrow> Inr n
      | Some p \<Rightarrow>
          if n = k then Inl (result (TemperCreate U dev tmo dbg p w)) else Inr (n + 1))"
proof -
  have "result (product_loop U dev k tmo dbg ProductList n w) =
     (case lookup (idVendor dev) (idProduct dev) of
        None \<Rightarrow> Inr n
      | Some p \<Rightarrow>
          if n = k then Inl (result (TemperCreate U dev tmo dbg p w)) else Inr (n + 1))"
    by (simp add: product_loop_table split: option.split)
  moreover have "(lookup v i = None) = (\<not> (v = 0x0c45 \<and> (i = 0x7401 \<or> i = 0x7402)))"
    by (auto simp add: lookup_cases)
  moreover have "map (\<lambda>p. (vendor p, id' p)) ProductList = [(0x0c45, 0x7401), (0x0c45, 0x7402)]"
    by (simp add: ProductList_def)
  ultimately show ?thesis
    by (simp add: lookup_cases ProductCount_def) (simp add: ProductList_def)
qed

subsection \<open>C2: a failed open closes the handle once\<close>

text \<open>
  C2. \<^verbatim>\<open>TemperCreate\<close> runs \<^verbatim>\<open>usb_open\<close> once, on the device. If that fails, it
  returns NULL in the world \<^verbatim>\<open>usb_open\<close> has left and makes no other libusb call, so
  nothing is closed. If it gives a handle \<open>h\<close>, the two detach attempts run, then the
  configuration is set, then interface 0 and interface 1 are claimed, each step in the
  world the step before has left and only if the step before has not failed.
  \<^verbatim>\<open>TemperCreate\<close> returns NULL exactly when setting the configuration returns a
  negative value, or the claim of interface 0 returns a negative value, or the claim
  of interface 1 returns a value other than 0. In each of these three cases
  \<^verbatim>\<open>usb_close\<close> is run on \<open>h\<close> once, in the world the failing step has left, it is
  the last libusb call, and the world returned is the world after that close. On the
  success path no handle is closed: the session holds \<open>h\<close> and the world is the one
  the claim of interface 1 has left.
\<close>

theorem open_failure_closes_handle_once:
  "opens (events (TemperCreate U dev tmo dbg p w)) = [dev] \<and>
   closes (events (TemperCreate U dev tmo dbg p w)) =
     (case fst (usb_open U dev w) of
        None \<Rightarrow> []
      | Some h \<Rightarrow> if result (TemperCreate U dev tmo dbg p w) = None then [h] else []) \<and>
   (fst (usb_open U dev w) = None \<longrightarrow>
      result (TemperCreate U dev tmo dbg p w) = None \<and>
      world (TemperCreate U dev tmo dbg p w) = snd (usb_open U dev w) \<and>
      usb_calls (events (TemperCreate U dev tmo dbg p w)) = [Open dev]) \<and>
   (fst (usb_open U dev w) = Some h \<and> result (TemperCreate U dev tmo dbg p w) = None \<longrightarrow>
      last (usb_calls (events (TemperCreate U dev tmo dbg p w))) = Close h) \<and>
   (result (TemperCreate U dev tmo dbg p w) = Some t \<longrightarrow>
      fst (usb_open U dev w) = Some (handle t)) \<and>
   (fst (usb_open U dev w) = Some h \<longrightarrow>
     (let w3 = snd (usb_detach_kernel_driver_np U h 1
                 (snd (usb_detach_kernel_driver_np U h 0 (snd (usb_open U dev w)))));
          c = fst (usb_set_configuration U h 1 w3);
          w4 = snd (usb_set_configuration U h 1 w3);
          c0 = fst (usb_claim_interface U h 0 w4);
          w5 = snd (usb_claim_interface U h 0 w4);
          c1 = fst (usb_claim_interface U h 1 w5);
          w6 = snd (usb_claim_interface U h 1 w5)
      in (result (TemperCreate U dev tmo dbg p w) = None) = (c < 0 \<or> c0 < 0 \<or> c1 \<noteq> 0) \<and>
         (c < 0 \<longrightarrow>
            world (TemperCreate U dev tmo dbg p w) = snd (usb_close U h w4) \<and>
            usb_calls (events (TemperCreate U dev tmo dbg p w)) =
              [Open dev, Detach h 0, Detach h 1, SetConfiguration h 1, Close h]) \<and>
         (0 \<le> c \<and> c0 < 0 \<longrightarrow>
            world (TemperCreate U dev tmo dbg p w) = snd (usb_close U h w5) \<and>
            usb_calls (events (TemperCreate U dev tmo dbg p w)) =
              [Open dev, Detach h 0, Detach h 1, SetConfiguration h 1,
               ClaimInterface h 0, Close h]) \<and>
         (0 \<le> c \<and> 0 \<le> c0 \<and> c1 \<noteq> 0 \<longrightarrow>
            world (TemperCreate U dev tmo dbg p w) = snd (usb_close U h w6) \<and>
            usb_calls (events (TemperCreate U dev tmo dbg p w)) =
              [Open dev, Detach h 0, Detach h 1, SetConfiguration h 1,
               ClaimInterface h 0, ClaimInterface h 1, Close h]) \<and>
         (0 \<le> c \<and> 0 \<le> c0 \<and> c1 = 0 \<longrightarrow>
            result (TemperCreate U dev tmo dbg p w) =
              Some \<lparr>device = dev, handle = h, debug = dbg, timeout = tmo, product' = p\<rparr> \<and>
            world (TemperCreate U dev tmo dbg p w) = w6 \<and>
            usb_calls (events (TemperCreate U dev tmo dbg p w)) =
              [Open dev, Detach h 0, Detach h 1, SetConfiguration h 1,
               ClaimInterface h 0, ClaimInterface h 1])))"
proof -
  let ?T = "TemperCreate U dev tmo dbg p w"
  have A: "opens (events ?T) = [dev]"
    by (rule TemperCreate_opens)
  have B: "closes (events ?T) =
     (case fst (usb_open U dev w) of
        None \<Rightarrow> []
      | Some h \<Rightarrow> if result ?T = None then [h] else [])"
  proof (cases "fst (usb_open U dev w)")
    case None
    then show ?thesis
      using TemperCreate_not_opened [of U dev w tmo dbg p] by (simp add: closes_def)
  next
    case (Some h')
    then show ?thesis
      using TemperCreate_opened [of U dev w h' tmo dbg p] by simp
  qed
  have C: "fst (usb_open U dev w) = None \<longrightarrow>
      result ?T = None \<and> world ?T = snd (usb_open U dev w) \<and>
      usb_calls (events ?T) = [Open dev]"
    using TemperCreate_not_opened [of U dev w tmo dbg p] by blast
  have D: "fst (usb_open U dev w) = Some h \<and> result ?T = None \<longrightarrow>
      last (usb_calls (events ?T)) = Close h"
    using TemperCreate_opened [of U dev w h tmo dbg p] by blast
  have E: "result ?T = Some t \<longrightarrow> fst (usb_open U dev w) = Some (handle t)"
  proof (cases "fst (usb_open U dev w)")
    case None
    then show ?thesis
      using TemperCreate_not_opened [of U dev w tmo dbg p] by simp
  next
    case (Some h')
    have "result ?T \<in>
        {None, Some \<lparr>device = dev, handle = h', debug = dbg, timeout = tmo, product' = p\<rparr>}"
      using TemperCreate_opened [OF Some, of tmo dbg p] by blast
    then show ?thesis
      using Some by auto
  qed
  note F = TemperCreate_steps [of U dev w h tmo dbg p]
  show ?thesis
    using A B C D E F by (intro conjI impI) blast+
qed

text \<open>
  Five runs on the simulated libusb, each on the device at address 5 but the fourth.
  Setting the configuration fails: handle 5 is closed as the fifth call, and the world
  has counted five calls. The claim of interface 0 fails: closed as the sixth of six.
  The claim of interface 1 returns 1: closed as the seventh of seven. The device at
  address 0 cannot be opened: one call, nothing closed. All succeeds: six calls,
  nothing closed, and the session holds handle 5.
\<close>

theorem open_failure_closes_handle_once_witness:
  "fst (usb_open ((sim_usb [] 0 72 (8, []))\<lparr>usb_set_configuration := \<lambda>h c w. (- 1, Suc w)\<rparr>)
      (temper2 5) 0) = Some 5 \<and>
   result (TemperCreate
     ((sim_usb [] 0 72 (8, []))\<lparr>usb_set_configuration := \<lambda>h c w. (- 1, Suc w)\<rparr>)
     (temper2 5) 1000 1 (ProductList ! 0) 0) = None \<and>
   world (TemperCreate
     ((sim_usb [] 0 72 (8, []))\<lparr>usb_set_configuration := \<lambda>h c w. (- 1, Suc w)\<rparr>)
     (temper2 5) 1000 1 (ProductList ! 0) 0) = 5 \<and>
   usb_calls (events (TemperCreate
     ((sim_usb [] 0 72 (8, []))\<lparr>usb_set_configuration := \<lambda>h c w. (- 1, Suc w)\<rparr>)
     (temper2 5) 1000 1 (ProductList ! 0) 0)) =
     [Open (temper2 5), Detach 5 0, Detach 5 1, SetConfiguration 5 1, Close 5] \<and>
   result (TemperCreate
     ((sim_usb [] 0 72 (8, []))\<lparr>usb_claim_interface := \<lambda>h i w. (- 1, Suc w)\<rparr>)
     (temper2 5) 1000 1 (ProductList ! 0) 0) = None \<and>
   world (TemperCreate
     ((sim_usb [] 0 72 (8, []))\<lparr>usb_claim_interface := \<lambda>h i w. (- 1, Suc w)\<rparr>)
     (temper2 5) 1000 1 (ProductList ! 0) 0) = 6 \<and>
   usb_calls (events (TemperCreate
     ((sim_usb [] 0 72 (8, []))\<lparr>usb_claim_interface := \<lambda>h i w. (- 1, Suc w)\<rparr>)
     (temper2 5) 1000 1 (ProductList ! 0) 0)) =
     [Open (temper2 5), Detach 5 0, Detach 5 1, SetConfiguration 5 1,
      ClaimInterface 5 0, Close 5] \<and>
   result (TemperCreate (sim_usb [] 1 72 (8, [])) (temper2 5) 1000 1 (ProductList ! 0) 0) = None \<and>
   world (TemperCreate (sim_usb [] 1 72 (8, [])) (temper2 5) 1000 1 (ProductList ! 0) 0) = 7 \<and>
   closes (events
     (TemperCreate (sim_usb [] 1 72 (8, [])) (temper2 5) 1000 1 (ProductList ! 0) 0)) = [5] \<and>
   usb_calls (events
     (TemperCreate (sim_usb [] 1 72 (8, [])) (temper2 5) 1000 1 (ProductList ! 0) 0)) =
     [Open (temper2 5), Detach 5 0, Detach 5 1, SetConfiguration 5 1,
      ClaimInterface 5 0, ClaimInterface 5 1, Close 5] \<and>
   fst (usb_open (sim_usb [] 0 72 (8, [])) (temper2 0) 0) = None \<and>
   world (TemperCreate (sim_usb [] 0 72 (8, [])) (temper2 0) 1000 1 (ProductList ! 0) 0) = 1 \<and>
   closes (events
     (TemperCreate (sim_usb [] 0 72 (8, [])) (temper2 0) 1000 1 (ProductList ! 0) 0)) = [] \<and>
   result (TemperCreate (sim_usb [] 0 72 (8, [])) (temper2 5) 1000 1 (ProductList ! 0) 0) =
     Some \<lparr>device = temper2 5, handle = 5, debug = 1, timeout = 1000,
           product' = ProductList ! 0\<rparr> \<and>
   world (TemperCreate (sim_usb [] 0 72 (8, [])) (temper2 5) 1000 1 (ProductList ! 0) 0) = 6 \<and>
   closes (events
     (TemperCreate (sim_usb [] 0 72 (8, [])) (temper2 5) 1000 1 (ProductList ! 0) 0)) = []"
proof -
  let ?A = "(sim_usb [] 0 72 (8, []))\<lparr>usb_set_configuration := \<lambda>h c w. (- 1, Suc w)\<rparr>"
  let ?B = "(sim_usb [] 0 72 (8, []))\<lparr>usb_claim_interface := \<lambda>h i w. (- 1, Suc w)\<rparr>"
  let ?C = "sim_usb [] 1 72 (8, [])"
  let ?E = "sim_usb [] 0 72 (8, [])"
  note T = open_failure_closes_handle_once [where tmo = 1000 and dbg = 1 and p = "ProductList ! 0"
      and w = 0]
  have A: "fst (usb_open ?A (temper2 5) 0) = Some 5 \<and>
      result (TemperCreate ?A (temper2 5) 1000 1 (ProductList ! 0) 0) = None \<and>
      world (TemperCreate ?A (temper2 5) 1000 1 (ProductList ! 0) 0) = 5 \<and>
      usb_calls (events (TemperCreate ?A (temper2 5) 1000 1 (ProductList ! 0) 0)) =
        [Open (temper2 5), Detach 5 0, Detach 5 1, SetConfiguration 5 1, Close 5]"
    using T [where U = ?A and dev = "temper2 5" and h = 5]
    by (simp add: sim_usb_def temper2_def Let_def)
  have B: "result (TemperCreate ?B (temper2 5) 1000 1 (ProductList ! 0) 0) = None \<and>
      world (TemperCreate ?B (temper2 5) 1000 1 (ProductList ! 0) 0) = 6 \<and>
      usb_calls (events (TemperCreate ?B (temper2 5) 1000 1 (ProductList ! 0) 0)) =
        [Open (temper2 5), Detach 5 0, Detach 5 1, SetConfiguration 5 1,
         ClaimInterface 5 0, Close 5]"
    using T [where U = ?B and dev = "temper2 5" and h = 5]
    by (simp add: sim_usb_def temper2_def Let_def)
  have C: "result (TemperCreate ?C (temper2 5) 1000 1 (ProductList ! 0) 0) = None \<and>
      world (TemperCreate ?C (temper2 5) 1000 1 (ProductList ! 0) 0) = 7 \<and>
      closes (events (TemperCreate ?C (temper2 5) 1000 1 (ProductList ! 0) 0)) = [5] \<and>
      usb_calls (events (TemperCreate ?C (temper2 5) 1000 1 (ProductList ! 0) 0)) =
        [Open (temper2 5), Detach 5 0, Detach 5 1, SetConfiguration 5 1,
         ClaimInterface 5 0, ClaimInterface 5 1, Close 5]"
    using T [where U = ?C and dev = "temper2 5" and h = 5]
    by (simp add: sim_usb_def temper2_def Let_def)
  have D: "fst (usb_open ?E (temper2 0) 0) = None \<and>
      world (TemperCreate ?E (temper2 0) 1000 1 (ProductList ! 0) 0) = 1 \<and>
      closes (events (TemperCreate ?E (temper2 0) 1000 1 (ProductList ! 0) 0)) = []"
    using T [where U = ?E and dev = "temper2 0"]
    by (simp add: sim_usb_def temper2_def)
  have E: "result (TemperCreate ?E (temper2 5) 1000 1 (ProductList ! 0) 0) =
        Some \<lparr>device = temper2 5, handle = 5, debug = 1, timeout = 1000,
              product' = ProductList ! 0\<rparr> \<and>
      world (TemperCreate ?E (temper2 5) 1000 1 (ProductList ! 0) 0) = 6 \<and>
      closes (events (TemperCreate ?E (temper2 5) 1000 1 (ProductList ! 0) 0)) = []"
    using T [where U = ?E and dev = "temper2 5" and h = 5]
    by (simp add: sim_usb_def temper2_def Let_def)
  show ?thesis
    using A B C D E by simp
qed

subsection \<open>C6: the detach outcomes\<close>

text \<open>
  C6. Whatever the two detach attempts return and whatever \<^verbatim>\<open>errno\<close> they leave
  (\<^verbatim>\<open>ENODATA\<close> or any other value), \<^verbatim>\<open>TemperCreate\<close> returns the same result,
  leaves the same world and makes the same libusb calls; with the debug flag off it
  does and prints exactly the same, so the outcomes show in the debug output only.
  After a successful \<^verbatim>\<open>usb_open\<close> the calls always begin with the two detach
  attempts and the setting of configuration 1.
\<close>

theorem detach_outcome_ignored:
  "result (TemperCreate (with_detach_outcome out U) dev tmo dbg p w) =
     result (TemperCreate U dev tmo dbg p w) \<and>
   world (TemperCreate (with_detach_outcome out U) dev tmo dbg p w) =
     world (TemperCreate U dev tmo dbg p w) \<and>
   effects (events (TemperCreate (with_detach_outcome out U) dev tmo dbg p w)) =
     effects (events (TemperCreate U dev tmo dbg p w)) \<and>
   events (TemperCreate (with_detach_outcome out U) dev tmo 0 p w) =
     events (TemperCreate U dev tmo 0 p w) \<and>
   (fst (usb_open U dev w) = Some h \<longrightarrow>
      take 4 (usb_calls (events (TemperCreate (with_detach_outcome out U) dev tmo dbg p w))) =
        [Open dev, Detach h 0, Detach h 1, SetConfiguration h 1])"
proof -
  have quiet: "events (TemperCreate (with_detach_outcome out U) dev tmo 0 p w) =
      events (TemperCreate U dev tmo 0 p w)"
    using TemperCreate_detach_outcome [of out U dev tmo 0 p w]
    by (simp add: TemperCreate_effects_debug)
  have first: "take 4 (usb_calls (events
        (TemperCreate (with_detach_outcome out U) dev tmo dbg p w))) =
      [Open dev, Detach h 0, Detach h 1, SetConfiguration h 1]"
    if "fst (usb_open U dev w) = Some h"
  proof -
    have "fst (usb_open (with_detach_outcome out U) dev w) = Some h"
      using that by (simp add: with_detach_outcome_def)
    from TemperCreate_opened [OF this, of tmo dbg p] show ?thesis
      by simp
  qed
  show ?thesis
    using TemperCreate_detach_outcome [of out U dev tmo dbg p w] quiet first by simp
qed

text \<open>
  On the simulated libusb both detach attempts fail with \<^verbatim>\<open>ENODATA\<close>. With both
  failing with error 16 instead, or both succeeding, the session is opened all the
  same, with the same six libusb calls.
\<close>

theorem detach_outcome_ignored_witness:
  "fst (usb_open (sim_usb [] 0 72 (8, [])) (temper2 5) 0) = Some 5 \<and>
   result (TemperCreate (with_detach_outcome (\<lambda>h i w. (- 1, 16)) (sim_usb [] 0 72 (8, [])))
       (temper2 5) 1000 1 (ProductList ! 0) 0) =
     Some \<lparr>device = temper2 5, handle = 5, debug = 1, timeout = 1000,
           product' = ProductList ! 0\<rparr> \<and>
   result (TemperCreate (with_detach_outcome (\<lambda>h i w. (0, 0)) (sim_usb [] 0 72 (8, [])))
       (temper2 5) 1000 1 (ProductList ! 0) 0) =
     Some \<lparr>device = temper2 5, handle = 5, debug = 1, timeout = 1000,
           product' = ProductList ! 0\<rparr> \<and>
   effects (events
     (TemperCreate (with_detach_outcome (\<lambda>h i w. (- 1, 16)) (sim_usb [] 0 72 (8, [])))
       (temper2 5) 1000 1 (ProductList ! 0) 0)) =
     [Usb (Open (temper2 5)), Usb (Detach 5 0), Usb (Detach 5 1), Usb (SetConfiguration 5 1),
      Usb (ClaimInterface 5 0), Usb (ClaimInterface 5 1)]"
proof -
  have o: "fst (usb_open (sim_usb [] 0 72 (8, [])) (temper2 5) 0) = Some 5"
    by (simp add: sim_usb_def temper2_def)
  have r: "result (TemperCreate (sim_usb [] 0 72 (8, [])) (temper2 5) 1000 1 (ProductList ! 0) 0) =
      Some \<lparr>device = temper2 5, handle = 5, debug = 1, timeout = 1000,
            product' = ProductList ! 0\<rparr>"
    by (simp add: TemperCreate_def Let_def sim_usb_def temper2_def)
  have e: "effects (events
      (TemperCreate (sim_usb [] 0 72 (8, [])) (temper2 5) 1000 1 (ProductList ! 0) 0)) =
     [Usb (Open (temper2 5)), Usb (Detach 5 0), Usb (Detach 5 1), Usb (SetConfiguration 5 1),
      Usb (ClaimInterface 5 0), Usb (ClaimInterface 5 1)]"
    by (simp add: TemperCreate_def Let_def sim_usb_def temper2_def)
  show ?thesis
    using o r e
      detach_outcome_ignored
        [of "\<lambda>h i w. (- 1, 16)" "sim_usb [] 0 72 (8, [])" "temper2 5" 1000 1 "ProductList ! 0" 0 5]
      detach_outcome_ignored
        [of "\<lambda>h i w. (0, 0)" "sim_usb [] 0 72 (8, [])" "temper2 5" 1000 1 "ProductList ! 0" 0 5]
    by simp
qed

subsection \<open>C8: the debug flag\<close>

lemma TemperSendCommand8_debug:
  "observable (TemperSendCommand8 U (t\<lparr>debug := d\<rparr>) a b c d' e f g h w) =
   observable (TemperSendCommand8 U t a b c d' e f g h w)"
  by (simp add: observable_def TemperSendCommand8_def Let_def)

lemma TemperSendCommand2_debug:
  "observable (TemperSendCommand2 U (t\<lparr>debug := d\<rparr>) a b w) =
   observable (TemperSendCommand2 U t a b w)"
  by (simp add: observable_def TemperSendCommand2_def Let_def)

lemma TemperInterruptRead_debug:
  "observable (TemperInterruptRead U (t\<lparr>debug := d\<rparr>) buf len w) =
   observable (TemperInterruptRead U t buf len w)"
  by (simp add: observable_def TemperInterruptRead_result TemperInterruptRead_world
      TemperInterruptRead_effects)

lemma TemperGetData_debug:
  "observable (TemperGetData U (t\<lparr>debug := d\<rparr>) stack data w) =
   observable (TemperGetData U t stack data w)"
proof -
  have "effects (events (TemperGetData U s stack data w)) =
      [Usb (InterruptRead (handle s) 0x82 8 (timeout s))] \<and>
    world (TemperGetData U s stack data w) =
      snd (usb_interrupt_read U (handle s) 0x82 8 (timeout s) w)" for s
    using TemperInterruptRead_effects [of U s _ 8 w] TemperInterruptRead_world [of U s _ 8 w]
    by (simp add: TemperGetData_def Let_def)
  then show ?thesis
    by (simp add: observable_def TemperGetData_result TemperByteToCelcius_def)
qed

lemma TemperCreate_debug:
  "result (TemperCreate U dev tmo d p w) =
     map_option (\<lambda>t. t\<lparr>debug := d\<rparr>) (result (TemperCreate U dev tmo d' p w)) \<and>
   world (TemperCreate U dev tmo d p w) = world (TemperCreate U dev tmo d' p w) \<and>
   effects (events (TemperCreate U dev tmo d p w)) =
     effects (events (TemperCreate U dev tmo d' p w))"
proof -
  have "result (TemperCreate U dev tmo d p w) =
      map_option (\<lambda>t. t\<lparr>debug := d\<rparr>) (result (TemperCreate U dev tmo d' p w))"
    by (subst (1 2) TemperCreate_result_debug) (simp add: option.map_comp comp_def)
  moreover have "world (TemperCreate U dev tmo d p w) = world (TemperCreate U dev tmo d' p w)"
    by (subst (1 2) TemperCreate_world_debug) simp
  ultimately show ?thesis
    by (simp add: TemperCreate_effects_debug)
qed

text \<open>
  C8. Two runs that differ only in the debug flag return the same result, leave the
  same world and make the same libusb calls and \<^verbatim>\<open>perror\<close> lines, for session open,
  device selection, both command writers, the interrupt read, the reading and the
  decoder: the flag only adds \<^verbatim>\<open>printf\<close> lines. The session that open returns keeps
  the flag in its \<open>debug\<close> field, where the later operations read it; the two
  sessions are the same in every other field.
\<close>

theorem debug_flag_only_prints:
  "result (TemperCreate U dev tmo d p w) =
     map_option (\<lambda>t. t\<lparr>debug := d\<rparr>) (result (TemperCreate U dev tmo d' p w)) \<and>
   world (TemperCreate U dev tmo d p w) = world (TemperCreate U dev tmo d' p w) \<and>
   effects (events (TemperCreate U dev tmo d p w)) =
     effects (events (TemperCreate U dev tmo d' p w)) \<and>
   result (TemperCreateFromDeviceNumber U k tmo d w) =
     map_option (\<lambda>t. t\<lparr>debug := d\<rparr>) (result (TemperCreateFromDeviceNumber U k tmo d' w)) \<and>
   world (TemperCreateFromDeviceNumber U k tmo d w) =
     world (TemperCreateFromDeviceNumber U k tmo d' w) \<and>
   effects (events (TemperCreateFromDeviceNumber U k tmo d w)) =
     effects (events (TemperCreateFromDeviceNumber U k tmo d' w)) \<and>
   observable (TemperSendCommand8 U (t\<lparr>debug := d\<rparr>) a b c e f g h i w) =
     observable (TemperSendCommand8 U t a b c e f g h i w) \<and>
   observable (TemperSendCommand2 U (t\<lparr>debug := d\<rparr>) a b w) =
     observable (TemperSendCommand2 U t a b w) \<and>
   observable (TemperInterruptRead U (t\<lparr>debug := d\<rparr>) buf len w) =
     observable (TemperInterruptRead U t buf len w) \<and>
   observable (TemperGetData U (t\<lparr>debug := d\<rparr>) stack data w) =
     observable (TemperGetData U t stack data w) \<and>
   TemperByteToCelcius (t\<lparr>debug := d\<rparr>) high low = TemperByteToCelcius t high low"
proof -
  have sel: "result (TemperCreateFromDeviceNumber U k tmo d w) =
     map_option (\<lambda>t. t\<lparr>debug := d\<rparr>) (result (TemperCreateFromDeviceNumber U k tmo d' w)) \<and>
   world (TemperCreateFromDeviceNumber U k tmo d w) =
     world (TemperCreateFromDeviceNumber U k tmo d' w) \<and>
   effects (events (TemperCreateFromDeviceNumber U k tmo d w)) =
     effects (events (TemperCreateFromDeviceNumber U k tmo d' w))"
    using TemperCreate_debug [of U _ tmo d _ w d']
    by (simp add: TemperCreateFromDeviceNumber_run)
  show ?thesis
    using sel TemperCreate_debug [of U dev tmo d p w d']
    by (simp add: TemperSendCommand8_debug TemperSendCommand2_debug TemperInterruptRead_debug
        TemperGetData_debug TemperByteToCelcius_def)
qed

text \<open>
  A poll with the debug flag on and off: the same count, reading, world and libusb
  call, while the events of the run with the flag on hold twelve \<^verbatim>\<open>printf\<close> lines
  more.
\<close>

theorem debug_flag_only_prints_witness:
  "observable (TemperGetData (sim_usb [] 0 72 (8, [0x80, 0x80, 0x01, 0x90, 0xFF, 0x70, 0x03, 0x04]))
       (sim_session\<lparr>debug := 0\<rparr>) stale \<lparr>tempA = 0, tempB = 0\<rparr> 0) =
   observable (TemperGetData (sim_usb [] 0 72 (8, [0x80, 0x80, 0x01, 0x90, 0xFF, 0x70, 0x03, 0x04]))
       sim_session stale \<lparr>tempA = 0, tempB = 0\<rparr> 0) \<and>
   length (events (TemperGetData
       (sim_usb [] 0 72 (8, [0x80, 0x80, 0x01, 0x90, 0xFF, 0x70, 0x03, 0x04]))
       (sim_session\<lparr>debug := 0\<rparr>) stale \<lparr>tempA = 0, tempB = 0\<rparr> 0)) = 1 \<and>
   length (events (TemperGetData
       (sim_usb [] 0 72 (8, [0x80, 0x80, 0x01, 0x90, 0xFF, 0x70, 0x03, 0x04]))
       sim_session stale \<lparr>tempA = 0, tempB = 0\<rparr> 0)) = 13"
proof -
  have n: "length (events (TemperGetData
       (sim_usb [] 0 72 (8, [0x80, 0x80, 0x01, 0x90, 0xFF, 0x70, 0x03, 0x04]))
       (sim_session\<lparr>debug := 0\<rparr>) stale \<lparr>tempA = 0, tempB = 0\<rparr> 0)) = 1"
    by (simp add: TemperGetData_def TemperInterruptRead_def Let_def sim_session_def)
  have m: "length (events (TemperGetData
       (sim_usb [] 0 72 (8, [0x80, 0x80, 0x01, 0x90, 0xFF, 0x70, 0x03, 0x04]))
       sim_session stale \<lparr>tempA = 0, tempB = 0\<rparr> 0)) = 13"
    by (simp add: TemperGetData_def TemperInterruptRead_def Let_def sim_session_def
        sim_usb_def dump_loop.simps)
  show ?thesis
    using n m
      debug_flag_only_prints
        [where U = "sim_usb [] 0 72 (8, [0x80, 0x80, 0x01, 0x90, 0xFF, 0x70, 0x03, 0x04])"
           and t = sim_session and d = 0 and w = 0 and stack = stale
           and data = "\<lparr>tempA = 0, tempB = 0\<rparr>"]
    by simp
qed

subsection \<open>C5: the Nth match\<close>

lemma matches_filter:
  "matches devs =
     map (\<lambda>d. (d, the (lookup (idVendor d) (idProduct d))))
       (filter (\<lambda>d. lookup (idVendor d) (idProduct d) \<noteq> None) devs)"
  by (induction devs) auto

lemma distinct_matches: "distinct devs \<Longrightarrow> distinct (map fst (matches devs))"
  by (simp add: matches_filter comp_def)

lemma TemperCreateFromDeviceNumber_opens:
  "opens (events (TemperCreateFromDeviceNumber U k tmo dbg w)) =
     (if 0 \<le> k \<and> k < int (length (enumeration_matches U w)) then
        [fst (enumeration_matches U w ! nat k)]
      else [])"
proof -
  have "opens (events (TemperCreateFromDeviceNumber U k tmo dbg w)) =
      opens (effects (events (TemperCreateFromDeviceNumber U k tmo dbg w)))"
    by simp
  also have "\<dots> =
     (if 0 \<le> k \<and> k < int (length (enumeration_matches U w)) then
        [fst (enumeration_matches U w ! nat k)]
      else [])"
    unfolding TemperCreateFromDeviceNumber_run [THEN conjunct2, THEN conjunct2]
    by (simp add: TemperCreate_opens)
  finally show ?thesis .
qed

text \<open>
  C5. \<^verbatim>\<open>TemperCreateFromDeviceNumber\<close> goes through the devices bus after bus in the
  order of the enumeration; the devices the table knows, in that order and each with
  its table entry, are numbered from 0. For a number that one of them has, the function
  is \<^verbatim>\<open>TemperCreate\<close> on that device with its entry, run in the unchanged world: the
  same result, the same world after it, the same libusb calls, and the one device
  opened is that device. For every other number (negative, or the number of matches or
  more) it returns NULL, leaves the world as it is and makes no libusb call. When the
  devices of the enumeration are distinct, two different numbers in range open
  different devices.
\<close>

theorem findNth_selects_nth_match:
  "enumeration_matches U w =
     map (\<lambda>d. (d, the (lookup (idVendor d) (idProduct d))))
       (filter (\<lambda>d. lookup (idVendor d) (idProduct d) \<noteq> None) (concat (usb_get_busses U w))) \<and>
   result (TemperCreateFromDeviceNumber U k tmo dbg w) =
     (if 0 \<le> k \<and> k < int (length (enumeration_matches U w)) then
        result (TemperCreate U (fst (enumeration_matches U w ! nat k)) tmo dbg
                  (snd (enumeration_matches U w ! nat k)) w)
      else None) \<and>
   world (TemperCreateFromDeviceNumber U k tmo dbg w) =
     (if 0 \<le> k \<and> k < int (length (enumeration_matches U w)) then
        world (TemperCreate U (fst (enumeration_matches U w ! nat k)) tmo dbg
                 (snd (enumeration_matches U w ! nat k)) w)
      else w) \<and>
   effects (events (TemperCreateFromDeviceNumber U k tmo dbg w)) =
     (if 0 \<le> k \<and> k < int (length (enumeration_matches U w)) then
        effects (events (TemperCreate U (fst (enumeration_matches U w ! nat k)) tmo dbg
                           (snd (enumeration_matches U w ! nat k)) w))
      else []) \<and>
   opens (events (TemperCreateFromDeviceNumber U k tmo dbg w)) =
     (if 0 \<le> k \<and> k < int (length (enumeration_matches U w)) then
        [fst (enumeration_matches U w ! nat k)]
      else []) \<and>
   (distinct (concat (usb_get_busses U w)) \<and>
    i < length (enumeration_matches U w) \<and> j < length (enumeration_matches U w) \<and> i \<noteq> j \<longrightarrow>
      opens (events (TemperCreateFromDeviceNumber U (int i) tmo dbg w)) \<noteq>
      opens (events (TemperCreateFromDeviceNumber U (int j) tmo dbg w)))"
proof -
  have d: "opens (events (TemperCreateFromDeviceNumber U (int i) tmo dbg w)) \<noteq>
      opens (events (TemperCreateFromDeviceNumber U (int j) tmo dbg w))"
    if "distinct (concat (usb_get_busses U w))"
      and "i < length (enumeration_matches U w)" and "j < length (enumeration_matches U w)"
      and "i \<noteq> j"
  proof -
    have "distinct (map fst (enumeration_matches U w))"
      using that(1) by (simp add: enumeration_matches_def distinct_matches)
    from nth_eq_iff_index_eq [OF this, of i j]
    have "fst (enumeration_matches U w ! i) \<noteq> fst (enumeration_matches U w ! j)"
      using that(2-4) by simp
    then show ?thesis
      using that(2,3) by (simp add: TemperCreateFromDeviceNumber_opens)
  qed
  show ?thesis
    using d TemperCreateFromDeviceNumber_run [of U k tmo dbg w]
    by (simp add: TemperCreateFromDeviceNumber_opens)
      (simp add: enumeration_matches_def matches_filter)
qed

text \<open>
  An enumeration of two busses with three devices of the table at the addresses 2, 4
  and 5 and another device between them: the numbers 0, 1 and 2 open the devices at 2,
  4 and 5, and the number 3 gives NULL without a libusb call.
\<close>

theorem findNth_selects_nth_match_witness:
  "distinct (concat (usb_get_busses
     (sim_usb [[temper2 2, other_device 3], [temper_humi 4, temper2 5]] 0 72 (8, [])) 0)) \<and>
   map fst (enumeration_matches
     (sim_usb [[temper2 2, other_device 3], [temper_humi 4, temper2 5]] 0 72 (8, [])) 0) =
     [temper2 2, temper_humi 4, temper2 5] \<and>
   map_option device (result (TemperCreateFromDeviceNumber
     (sim_usb [[temper2 2, other_device 3], [temper_humi 4, temper2 5]] 0 72 (8, [])) 0 1000 0 0)) =
     Some (temper2 2) \<and>
   map_option device (result (TemperCreateFromDeviceNumber
     (sim_usb [[temper2 2, other_device 3], [temper_humi 4, temper2 5]] 0 72 (8, [])) 1 1000 0 0)) =
     Some (temper_humi 4) \<and>
   map_option device (result (TemperCreateFromDeviceNumber
     (sim_usb [[temper2 2, other_device 3], [temper_humi 4, temper2 5]] 0 72 (8, [])) 2 1000 0 0)) =
     Some (temper2 5) \<and>
   result (TemperCreateFromDeviceNumber
     (sim_usb [[temper2 2, other_device 3], [temper_humi 4, temper2 5]] 0 72 (8, [])) 3 1000 0 0) =
     None \<and>
   effects (events (TemperCreateFromDeviceNumber
     (sim_usb [[temper2 2, other_device 3], [temper_humi 4, temper2 5]] 0 72 (8, [])) 3 1000 0 0)) =
     [] \<and>
   opens (events (TemperCreateFromDeviceNumber
     (sim_usb [[temper2 2, other_device 3], [temper_humi 4, temper2 5]] 0 72 (8, [])) (int 1) 1000 0 0)) \<noteq>
   opens (events (TemperCreateFromDeviceNumber
     (sim_usb [[temper2 2, other_device 3], [temper_humi 4, temper2 5]] 0 72 (8, [])) (int 2) 1000 0 0))"
proof -
  let ?U = "sim_usb [[temper2 2, other_device 3], [temper_humi 4, temper2 5]] 0 72 (8, [])"
  have b: "usb_get_busses ?U 0 = [[temper2 2, other_device 3], [temper_humi 4, temper2 5]]"
    by (simp add: sim_usb_def)
  have dist: "distinct (concat (usb_get_busses ?U 0))"
    unfolding b by (simp add: temper2_def temper_humi_def other_device_def)
  have m: "enumeration_matches ?U 0 =
      [(temper2 2, ProductList ! 0), (temper_humi 4, ProductList ! 1), (temper2 5, ProductList ! 0)]"
    unfolding enumeration_matches_def b
    by (simp add: lookup_cases temper2_def temper_humi_def other_device_def ProductList_def)
  have c: "map_option device (result (TemperCreate ?U dev 1000 0 p 0)) = Some dev"
    if "addr dev \<noteq> 0" for dev p
    using that by (simp add: TemperCreate_def Let_def sim_usb_def)
  have a: "addr (temper2 2) \<noteq> 0" "addr (temper_humi 4) \<noteq> 0" "addr (temper2 5) \<noteq> 0"
    by (simp_all add: temper2_def temper_humi_def)
  note T = findNth_selects_nth_match [of ?U 0 _ 1000 0 1 2, THEN conjunct2]
  have r: "result (TemperCreateFromDeviceNumber ?U k 1000 0 0) =
      (if 0 \<le> k \<and> k < 3 then
         result (TemperCreate ?U
           (fst ([(temper2 2, ProductList ! 0), (temper_humi 4, ProductList ! 1),
                  (temper2 5, ProductList ! 0)] ! nat k)) 1000 0
           (snd ([(temper2 2, ProductList ! 0), (temper_humi 4, ProductList ! 1),
                  (temper2 5, ProductList ! 0)] ! nat k)) 0)
       else None)" for k
    using T [of k, THEN conjunct1] unfolding m by simp
  have e: "effects (events (TemperCreateFromDeviceNumber ?U 3 1000 0 0)) = []"
    using T [of 3, THEN conjunct2, THEN conjunct2, THEN conjunct1] unfolding m by simp
  have o: "opens (events (TemperCreateFromDeviceNumber ?U (int 1) 1000 0 0)) \<noteq>
      opens (events (TemperCreateFromDeviceNumber ?U (int 2) 1000 0 0))"
    using dist T [of 0, THEN conjunct2, THEN conjunct2, THEN conjunct2, THEN conjunct2]
    unfolding m by simp
  have f: "map fst (enumeration_matches ?U 0) = [temper2 2, temper_humi 4, temper2 5]"
    unfolding m by simp
  show ?thesis
    using dist e o f by (simp add: r c a)
qed

subsection \<open>C10: a failed open of the Nth match\<close>

text \<open>The bus list plays no part in the loops once it has been read.\<close>

lemma usb_busses_fields:
  "usb_open (U\<lparr>usb_get_busses := f\<rparr>) = usb_open U"
  "usb_close (U\<lparr>usb_get_busses := f\<rparr>) = usb_close U"
  "usb_detach_kernel_driver_np (U\<lparr>usb_get_busses := f\<rparr>) = usb_detach_kernel_driver_np U"
  "usb_set_configuration (U\<lparr>usb_get_busses := f\<rparr>) = usb_set_configuration U"
  "usb_claim_interface (U\<lparr>usb_get_busses := f\<rparr>) = usb_claim_interface U"
  by simp_all

lemma TemperCreate_busses [simp]:
  "TemperCreate (U\<lparr>usb_get_busses := f\<rparr>) dev tmo dbg p = TemperCreate U dev tmo dbg p"
  unfolding TemperCreate_def detach_kernel_driver_def close_and_fail_def usb_busses_fields ..

lemma product_loop_busses [simp]:
  "product_loop (U\<lparr>usb_get_busses := f\<rparr>) dev k tmo dbg ps n = product_loop U dev k tmo dbg ps n"
  by (induction ps arbitrary: n) simp_all

lemma device_loop_busses [simp]:
  "device_loop (U\<lparr>usb_get_busses := f\<rparr>) k tmo dbg devs = device_loop U k tmo dbg devs"
proof (induction devs)
  case Nil
  show ?case by (rule ext) simp
next
  case (Cons a devs)
  show ?case by (rule ext) (simp add: Cons)
qed

lemma bus_loop_busses [simp]:
  "bus_loop (U\<lparr>usb_get_busses := f\<rparr>) k tmo dbg busses = bus_loop U k tmo dbg busses"
proof (induction busses)
  case Nil
  show ?case by (rule ext) simp
next
  case (Cons a busses)
  show ?case by (rule ext) (simp add: Cons)
qed

text \<open>
  The device loop ends at the device that has the requested number: what stands
  behind it in the list is not looked at.
\<close>

lemma device_loop_stops:
  assumes d: "lookup (idVendor d) (idProduct d) \<noteq> None"
  shows "n \<le> k \<Longrightarrow> length (matches pre) = nat (k - n) \<Longrightarrow>
    device_loop U k tmo dbg (pre @ d # post) n w = device_loop U k tmo dbg (pre @ [d]) n w"
proof (induction pre arbitrary: n w)
  case Nil
  then have n: "n = k" by simp
  from d obtain p where p: "lookup (idVendor d) (idProduct d) = Some p" by auto
  have "result (product_loop U d k tmo dbg ProductList k w') = Inl (result (TemperCreate U d tmo dbg p w'))"
    for w'
    by (simp add: product_loop_table p)
  then show ?case
    unfolding n by (simp add: io_seq_def io_bind_def Let_def)
next
  case (Cons x pre)
  show ?case
  proof (cases "lookup (idVendor x) (idProduct x)")
    case None
    then have r: "result (product_loop U x k tmo dbg ProductList n w') = Inr n" for w'
      by (simp add: product_loop_table)
    have "device_loop U k tmo dbg (pre @ d # post) n w' = device_loop U k tmo dbg (pre @ [d]) n w'"
      for w'
      using Cons.prems None by (intro Cons.IH) simp_all
    then show ?thesis
      by (simp add: io_seq_def io_bind_def Let_def r)
  next
    case (Some p)
    then have "n < k" using Cons.prems by simp
    then have r: "result (product_loop U x k tmo dbg ProductList n w') = Inr (n + 1)" for w'
      using Some by (simp add: product_loop_table)
    have "device_loop U k tmo dbg (pre @ d # post) (n + 1) w' =
        device_loop U k tmo dbg (pre @ [d]) (n + 1) w'" for w'
      using Cons.prems Some \<open>n < k\<close> by (intro Cons.IH) simp_all
    then show ?thesis
      by (simp add: io_seq_def io_bind_def Let_def r)
  qed
qed

lemma bus_loop_stops:
  assumes d: "lookup (idVendor d) (idProduct d) \<noteq> None"
  shows "n \<le> k \<Longrightarrow> length (matches (concat bs)) + length (matches pre) = nat (k - n) \<Longrightarrow>
    bus_loop U k tmo dbg (bs @ (pre @ d # post) # rest) n w =
    bus_loop U k tmo dbg (bs @ [pre @ [d]]) n w"
proof (induction bs arbitrary: n w)
  case Nil
  then have l: "length (matches pre) = nat (k - n)" by simp
  from d obtain p where p: "lookup (idVendor d) (idProduct d) = Some p" by auto
  have s: "device_loop U k tmo dbg (pre @ d # post) n w = device_loop U k tmo dbg (pre @ [d]) n w"
    using d Nil(1) l by (rule device_loop_stops)
  have "n \<le> k \<and> k < n + int (length (matches (pre @ [d])))"
    using Nil(1) l p by simp
  then obtain t where "result (device_loop U k tmo dbg (pre @ [d]) n w) = Inl t"
    using device_loop_run [of U k tmo dbg "pre @ [d]" n w] by auto
  then show ?case
    using s by (simp add: io_bind_def Let_def)
next
  case (Cons b bs)
  let ?m = "int (length (matches b))"
  have "\<not> (n \<le> k \<and> k < n + ?m)"
    using Cons.prems by simp
  then have r: "result (device_loop U k tmo dbg b n w) = Inr (n + ?m)"
    using device_loop_run [of U k tmo dbg b n w] by simp
  have "bus_loop U k tmo dbg (bs @ (pre @ d # post) # rest) (n + ?m) w' =
      bus_loop U k tmo dbg (bs @ [pre @ [d]]) (n + ?m) w'" for w'
    using Cons.prems by (intro Cons.IH) simp_all
  then show ?case
    by (simp add: io_bind_def Let_def r)
qed

text \<open>
  C10. When the device with the requested number exists and \<^verbatim>\<open>TemperCreate\<close> fails
  on it, \<^verbatim>\<open>TemperCreateFromDeviceNumber\<close> returns NULL, the value it also returns
  when no device has that number. In the first case its libusb calls are those of that
  one \<^verbatim>\<open>TemperCreate\<close>, so the only device opened is the one with the requested
  number; in the second it makes none. The run ends at that device: with everything
  behind it taken out of the enumeration, result, world and events (the debug output
  included) are the same.
\<close>

theorem findNth_open_failure_is_not_found:
  "(0 \<le> k \<and> k < int (length (enumeration_matches U w)) \<and>
    result (TemperCreate U (fst (enumeration_matches U w ! nat k)) tmo dbg
              (snd (enumeration_matches U w ! nat k)) w) = None \<longrightarrow>
      result (TemperCreateFromDeviceNumber U k tmo dbg w) = None) \<and>
   (\<not> (0 \<le> k \<and> k < int (length (enumeration_matches U w))) \<longrightarrow>
      result (TemperCreateFromDeviceNumber U k tmo dbg w) = None) \<and>
   usb_calls (events (TemperCreateFromDeviceNumber U k tmo dbg w)) =
     (if 0 \<le> k \<and> k < int (length (enumeration_matches U w)) then
        usb_calls (events (TemperCreate U (fst (enumeration_matches U w ! nat k)) tmo dbg
                             (snd (enumeration_matches U w ! nat k)) w))
      else []) \<and>
   opens (events (TemperCreateFromDeviceNumber U k tmo dbg w)) =
     (if 0 \<le> k \<and> k < int (length (enumeration_matches U w)) then
        [fst (enumeration_matches U w ! nat k)]
      else []) \<and>
   (usb_get_busses U w = bs @ (pre @ d # post) # rest \<and>
    lookup (idVendor d) (idProduct d) \<noteq> None \<and>
    int (length (matches (concat bs)) + length (matches pre)) = k \<longrightarrow>
      TemperCreateFromDeviceNumber U k tmo dbg w =
      TemperCreateFromDeviceNumber (U\<lparr>usb_get_busses := \<lambda>_. bs @ [pre @ [d]]\<rparr>) k tmo dbg w)"
proof -
  have c: "usb_calls (events (TemperCreateFromDeviceNumber U k tmo dbg w)) =
     (if 0 \<le> k \<and> k < int (length (enumeration_matches U w)) then
        usb_calls (events (TemperCreate U (fst (enumeration_matches U w ! nat k)) tmo dbg
                             (snd (enumeration_matches U w ! nat k)) w))
      else [])"
  proof -
    have "usb_calls (events (TemperCreateFromDeviceNumber U k tmo dbg w)) =
        usb_calls (effects (events (TemperCreateFromDeviceNumber U k tmo dbg w)))"
      by simp
    also have "\<dots> =
      (if 0 \<le> k \<and> k < int (length (enumeration_matches U w)) then
         usb_calls (events (TemperCreate U (fst (enumeration_matches U w ! nat k)) tmo dbg
                              (snd (enumeration_matches U w ! nat k)) w))
       else [])"
      unfolding TemperCreateFromDeviceNumber_run [THEN conjunct2, THEN conjunct2]
      by simp
    finally show ?thesis .
  qed
  have s: "TemperCreateFromDeviceNumber U k tmo dbg w =
      TemperCreateFromDeviceNumber (U\<lparr>usb_get_busses := \<lambda>_. bs @ [pre @ [d]]\<rparr>) k tmo dbg w"
    if "usb_get_busses U w = bs @ (pre @ d # post) # rest"
      and "lookup (idVendor d) (idProduct d) \<noteq> None"
      and "int (length (matches (concat bs)) + length (matches pre)) = k"
  proof -
    have "bus_loop U k tmo dbg (bs @ (pre @ d # post) # rest) 0 w =
        bus_loop U k tmo dbg (bs @ [pre @ [d]]) 0 w"
      using that(2,3) by (intro bus_loop_stops) auto
    then show ?thesis
      using that(1) by (simp add: TemperCreateFromDeviceNumber_def io_bind_def Let_def)
  qed
  show ?thesis
    using c s TemperCreateFromDeviceNumber_run [of U k tmo dbg w]
    by (simp add: TemperCreateFromDeviceNumber_opens)
qed

text \<open>
  On the simulated libusb the claim of interface 1 fails, so every open fails. The
  enumeration has the devices of the table at the addresses 2, 4 and 5. Number 1 is
  the device at 4: the result is NULL, as for number 3, which no device has; the device
  at 4 is the only one opened, and the run is the same as on the enumeration that ends
  with the device at 4.
\<close>

theorem findNth_open_failure_is_not_found_witness:
  "(1 :: int) < int (length (enumeration_matches
     (sim_usb [[temper2 2, other_device 3], [temper_humi 4, temper2 5]] (- 1) 72 (8, [])) 0)) \<and>
   enumeration_matches
     (sim_usb [[temper2 2, other_device 3], [temper_humi 4, temper2 5]] (- 1) 72 (8, [])) 0 ! 1 =
     (temper_humi 4, ProductList ! 1) \<and>
   result (TemperCreate
     (sim_usb [[temper2 2, other_device 3], [temper_humi 4, temper2 5]] (- 1) 72 (8, []))
     (temper_humi 4) 1000 1 (ProductList ! 1) 0) = None \<and>
   result (TemperCreateFromDeviceNumber
     (sim_usb [[temper2 2, other_device 3], [temper_humi 4, temper2 5]] (- 1) 72 (8, []))
     1 1000 1 0) = None \<and>
   result (TemperCreateFromDeviceNumber
     (sim_usb [[temper2 2, other_device 3], [temper_humi 4, temper2 5]] (- 1) 72 (8, []))
     3 1000 1 0) = None \<and>
   opens (events (TemperCreateFromDeviceNumber
     (sim_usb [[temper2 2, other_device 3], [temper_humi 4, temper2 5]] (- 1) 72 (8, []))
     1 1000 1 0)) = [temper_humi 4] \<and>
   usb_calls (events (TemperCreateFromDeviceNumber
     (sim_usb [[temper2 2, other_device 3], [temper_humi 4, temper2 5]] (- 1) 72 (8, []))
     3 1000 1 0)) = [] \<and>
   TemperCreateFromDeviceNumber
     (sim_usb [[temper2 2, other_device 3], [temper_humi 4, temper2 5]] (- 1) 72 (8, []))
     1 1000 1 0 =
   TemperCreateFromDeviceNumber
     (sim_usb [[temper2 2, other_device 3], [temper_humi 4]] (- 1) 72 (8, []))
     1 1000 1 0"
proof -
  let ?U = "sim_usb [[temper2 2, other_device 3], [temper_humi 4, temper2 5]] (- 1) 72 (8, [])"
  note T = findNth_open_failure_is_not_found
    [where U = ?U and w = 0 and tmo = 1000 and dbg = 1 and bs = "[[temper2 2, other_device 3]]"
       and pre = "[]" and d = "temper_humi 4" and post = "[temper2 5]" and rest = "[]"]
  have b: "usb_get_busses ?U 0 = [[temper2 2, other_device 3], [temper_humi 4, temper2 5]]"
    by (simp add: sim_usb_def)
  have m: "enumeration_matches ?U 0 =
      [(temper2 2, ProductList ! 0), (temper_humi 4, ProductList ! 1), (temper2 5, ProductList ! 0)]"
    unfolding enumeration_matches_def b
    by (simp add: lookup_cases temper2_def temper_humi_def other_device_def ProductList_def)
  have f: "result (TemperCreate ?U dev 1000 1 p 0) = None" for dev p
    by (simp add: TemperCreate_def Let_def sim_usb_def)
  have r1: "result (TemperCreateFromDeviceNumber ?U 1 1000 1 0) = None"
    using T [where k = 1, THEN conjunct1] unfolding m by (simp add: f)
  have r3: "result (TemperCreateFromDeviceNumber ?U 3 1000 1 0) = None"
    using T [where k = 3, THEN conjunct2, THEN conjunct1] unfolding m by simp
  have o: "opens (events (TemperCreateFromDeviceNumber ?U 1 1000 1 0)) = [temper_humi 4]"
    using T [where k = 1, THEN conjunct2, THEN conjunct2, THEN conjunct2, THEN conjunct1]
    unfolding m by simp
  have u: "usb_calls (events (TemperCreateFromDeviceNumber ?U 3 1000 1 0)) = []"
    using T [where k = 3, THEN conjunct2, THEN conjunct2, THEN conjunct1]
    unfolding m by simp
  have l: "lookup (idVendor (temper_humi 4)) (idProduct (temper_humi 4)) \<noteq> None"
    "int (length (matches (concat [[temper2 2, other_device 3]])) + length (matches [])) = 1"
    by (simp_all add: lookup_cases temper2_def temper_humi_def other_device_def)
  have c: "?U\<lparr>usb_get_busses := \<lambda>_. [[temper2 2, other_device 3]] @ [[] @ [temper_humi 4]]\<rparr> =
      sim_usb [[temper2 2, other_device 3], [temper_humi 4]] (- 1) 72 (8, [])"
    by (simp add: sim_usb_def)
  have s: "TemperCreateFromDeviceNumber ?U 1 1000 1 0 =
      TemperCreateFromDeviceNumber
        (sim_usb [[temper2 2, other_device 3], [temper_humi 4]] (- 1) 72 (8, [])) 1 1000 1 0"
    using T [where k = 1, THEN conjunct2, THEN conjunct2, THEN conjunct2, THEN conjunct2] b l
    unfolding c by simp
  show ?thesis
    using r1 r3 o u s by (simp add: m f)
qed

end
